theory Spec2Isabelle
  imports Complex_Main "HOL-Library.Word"
begin

unbundle bit_operations_syntax

section \<open>Conventions of the embedding\<close>

text \<open>
  The C++ sources compute in \<^verbatim>\<open>double\<close> (and a few \<^verbatim>\<open>float\<close> fields). The embedding reads
  every floating-point quantity as a real number: \<^verbatim>\<open>+\<close>, \<^verbatim>\<open>-\<close>, \<^verbatim>\<open>*\<close>, \<^verbatim>\<open>/\<close>, \<^verbatim>\<open>sqrt\<close> and the
  comparisons are the exact operations on \<^typ>\<open>real\<close>, and the rounding of these operations,
  infinities and NaN are outside the model. A \<^verbatim>\<open>float\<close> value read where a \<^verbatim>\<open>double\<close> is
  expected is read unchanged; an explicit narrowing \<^verbatim>\<open>float(x)\<close> in the source is kept, as the
  function \<open>float_of_double\<close> below.
  Division by zero is the one place where the two readings differ in kind (HOL gives
  \<open>x / 0 = 0\<close> where the machine gives an infinity or a NaN); a theorem below that covers
  an input with a zero divisor speaks of the model only.
\<close>

type_synonym double = real

section \<open>Math primitives\<close>

text \<open>
  \<^verbatim>\<open>ChVector3d\<close>, \<^verbatim>\<open>ChQuaterniond\<close> and \<^verbatim>\<open>ChMatrix33\<close> are declared in headers that are not
  part of the sources at hand; the sources use them as plain triples, quadruples and
  3x3 arrays of doubles with the usual component-wise operations.
\<close>

datatype ChVector3d = ChVector3d (vx: double) (vy: double) (vz: double)

datatype ChQuaterniond = ChQuaterniond (e0: double) (e1: double) (e2: double) (e3: double)

datatype ChMatrix33 = ChMatrix33
  (m00: double) (m01: double) (m02: double)
  (m10: double) (m11: double) (m12: double)
  (m20: double) (m21: double) (m22: double)

definition VNULL :: ChVector3d where
  "VNULL = ChVector3d 0 0 0"

definition QNULL :: ChQuaterniond where
  "QNULL = ChQuaterniond 0 0 0 0"

definition QUNIT :: ChQuaterniond where
  "QUNIT = ChQuaterniond 1 0 0 0"

text \<open>
  Modelled from the spec: the operators of \<^verbatim>\<open>ChVector3d\<close> (\<^verbatim>\<open>+\<close>, \<^verbatim>\<open>-\<close>, unary minus, product
  with a scalar, \<^verbatim>\<open>Vcross\<close>, \<^verbatim>\<open>Vdot\<close>, \<^verbatim>\<open>Length\<close>, \<^verbatim>\<open>LengthInf\<close>) live in the missing header
  \<^verbatim>\<open>ChVector3.h\<close>; the spec takes them as the supplied 3-vector algebra with exact
  semantics (sum, difference, scaling, cross and dot product, Euclidean and maximum norm).
\<close>

definition Vadd :: "ChVector3d \<Rightarrow> ChVector3d \<Rightarrow> ChVector3d" where
  "Vadd a b = ChVector3d (vx a + vx b) (vy a + vy b) (vz a + vz b)"

definition Vsub :: "ChVector3d \<Rightarrow> ChVector3d \<Rightarrow> ChVector3d" where
  "Vsub a b = ChVector3d (vx a - vx b) (vy a - vy b) (vz a - vz b)"

definition Vneg :: "ChVector3d \<Rightarrow> ChVector3d" where
  "Vneg a = ChVector3d (- vx a) (- vy a) (- vz a)"

definition Vmul :: "ChVector3d \<Rightarrow> double \<Rightarrow> ChVector3d" where
  "Vmul a s = ChVector3d (vx a * s) (vy a * s) (vz a * s)"

definition Vcross :: "ChVector3d \<Rightarrow> ChVector3d \<Rightarrow> ChVector3d" where
  "Vcross a b = ChVector3d (vy a * vz b - vz a * vy b)
                           (vz a * vx b - vx a * vz b)
                           (vx a * vy b - vy a * vx b)"

definition Vdot :: "ChVector3d \<Rightarrow> ChVector3d \<Rightarrow> double" where
  "Vdot a b = vx a * vx b + vy a * vy b + vz a * vz b"

definition Length :: "ChVector3d \<Rightarrow> double" where
  "Length a = sqrt (vx a * vx a + vy a * vy a + vz a * vz a)"

definition LengthInf :: "ChVector3d \<Rightarrow> double" where
  "LengthInf a = max (max \<bar>vx a\<bar> \<bar>vy a\<bar>) \<bar>vz a\<bar>"

definition QLengthInf :: "ChQuaterniond \<Rightarrow> double" where
  "QLengthInf q = max (max (max \<bar>e0 q\<bar> \<bar>e1 q\<bar>) \<bar>e2 q\<bar>) \<bar>e3 q\<bar>"

text \<open>Modelled from the spec: \<^verbatim>\<open>ChMatrix33 * ChVector3d\<close>, the matrix-vector product.\<close>

definition MatVec :: "ChMatrix33 \<Rightarrow> ChVector3d \<Rightarrow> ChVector3d" where
  "MatVec A v = ChVector3d (m00 A * vx v + m01 A * vy v + m02 A * vz v)
                           (m10 A * vx v + m11 A * vy v + m12 A * vz v)
                           (m20 A * vx v + m21 A * vy v + m22 A * vz v)"

subsection \<open>Quaternion operations of ChQuaternion.cpp\<close>

definition Qlength :: "ChQuaterniond \<Rightarrow> double" where
  "Qlength q = sqrt ((e0 q)\<^sup>2 + (e1 q)\<^sup>2 + (e2 q)\<^sup>2 + (e3 q)\<^sup>2)"

definition Qscale :: "ChQuaterniond \<Rightarrow> double \<Rightarrow> ChQuaterniond" where
  "Qscale q fct = ChQuaterniond (e0 q * fct) (e1 q * fct) (e2 q * fct) (e3 q * fct)"

definition Qconjugate :: "ChQuaterniond \<Rightarrow> ChQuaterniond" where
  "Qconjugate q = ChQuaterniond (e0 q) (- e1 q) (- e2 q) (- e3 q)"

definition Qcross :: "ChQuaterniond \<Rightarrow> ChQuaterniond \<Rightarrow> ChQuaterniond" where
  "Qcross qa qb = ChQuaterniond
     (e0 qa * e0 qb - e1 qa * e1 qb - e2 qa * e2 qb - e3 qa * e3 qb)
     (e0 qa * e1 qb + e1 qa * e0 qb - e3 qa * e2 qb + e2 qa * e3 qb)
     (e0 qa * e2 qb + e2 qa * e0 qb + e3 qa * e1 qb - e1 qa * e3 qb)
     (e0 qa * e3 qb + e3 qa * e0 qb - e2 qa * e1 qb + e1 qa * e2 qb)"

section \<open>State vectors\<close>

text \<open>
  \<^verbatim>\<open>ChState\<close>, \<^verbatim>\<open>ChStateDelta\<close> and \<^verbatim>\<open>ChVectorDynamic<>\<close> are dynamic vectors of doubles, read
  and written at caller-supplied offsets. The sources do no range check (an access
  outside the vector is undefined behaviour); the theorems below are stated for offsets
  inside the vectors, where \<open>xs ! i\<close> and \<open>xs[i := v]\<close> are what the code does.
\<close>

type_synonym ChVectorDynamic = "double list"

text \<open>\<^verbatim>\<open>v.segment(off, 3)\<close> read as a 3-vector, \<^verbatim>\<open>v.segment(off, 4)\<close> read as a quaternion.\<close>

definition segment3 :: "ChVectorDynamic \<Rightarrow> nat \<Rightarrow> ChVector3d" where
  "segment3 v off = ChVector3d (v ! off) (v ! (off + 1)) (v ! (off + 2))"

definition segment4 :: "ChVectorDynamic \<Rightarrow> nat \<Rightarrow> ChQuaterniond" where
  "segment4 v off = ChQuaterniond (v ! off) (v ! (off + 1)) (v ! (off + 2)) (v ! (off + 3))"

text \<open>\<^verbatim>\<open>v.segment(off, 3) = a.eigen()\<close> and \<^verbatim>\<open>v.segment(off, 4) = q.eigen()\<close>.\<close>

definition set_segment3 :: "ChVectorDynamic \<Rightarrow> nat \<Rightarrow> ChVector3d \<Rightarrow> ChVectorDynamic" where
  "set_segment3 v off a = v[off := vx a, off + 1 := vy a, off + 2 := vz a]"

definition set_segment4 :: "ChVectorDynamic \<Rightarrow> nat \<Rightarrow> ChQuaterniond \<Rightarrow> ChVectorDynamic" where
  "set_segment4 v off q = v[off := e0 q, off + 1 := e1 q, off + 2 := e2 q, off + 3 := e3 q]"

text \<open>\<^verbatim>\<open>v.segment(off, 3) += a.eigen()\<close>.\<close>

definition add_segment3 :: "ChVectorDynamic \<Rightarrow> nat \<Rightarrow> ChVector3d \<Rightarrow> ChVectorDynamic" where
  "add_segment3 v off a = set_segment3 v off (Vadd (segment3 v off) a)"

section \<open>ChConstraintTwoGenericBoxed: the boxed multiplier\<close>

text \<open>
  The fields of the two-variable constraint that the functions below read and write: the
  multiplier \<open>l_i\<close>, the known term \<open>b_i\<close> and the two Jacobian rows (the base class
  \<^verbatim>\<open>ChConstraintTwoGeneric\<close> is not among the sources). The boxed constraint inherits
  them and adds the two bounds.
\<close>

record ChConstraintTwoGeneric =
  l_i :: double
  b_i :: double
  Cq_a :: "double list"
  Cq_b :: "double list"

record ChConstraintTwoGenericBoxed = ChConstraintTwoGeneric +
  l_min :: double
  l_max :: double

text \<open>The default constructor: \<^verbatim>\<open>l_min = -1.; l_max = 1.;\<close>.\<close>

definition ChConstraintTwoGenericBoxed_default :: "double \<Rightarrow> ChConstraintTwoGenericBoxed" where
  "ChConstraintTwoGenericBoxed_default l =
     \<lparr> l_i = l, b_i = 0, Cq_a = [], Cq_b = [], l_min = -1, l_max = 1 \<rparr>"

text \<open>
  \<^verbatim>\<open>SetBoxedMinMax\<close> starts with \<^verbatim>\<open>assert(mmin <= mmax)\<close>; a failed assertion aborts the
  program, which the model returns as \<open>None\<close>.
\<close>

definition SetBoxedMinMax ::
  "double \<Rightarrow> double \<Rightarrow> ChConstraintTwoGenericBoxed \<Rightarrow> ChConstraintTwoGenericBoxed option" where
  "SetBoxedMinMax mmin mmax c =
     (if mmin \<le> mmax then Some (c\<lparr>l_min := mmin, l_max := mmax\<rparr>) else None)"

definition GetBoxedMin :: "ChConstraintTwoGenericBoxed \<Rightarrow> double" where
  "GetBoxedMin c = l_min c"

definition GetBoxedMax :: "ChConstraintTwoGenericBoxed \<Rightarrow> double" where
  "GetBoxedMax c = l_max c"

text \<open>
  \<^verbatim>\<open>Project\<close>: two consecutive \<^verbatim>\<open>if\<close> statements, the second reading the multiplier the
  first may have written.
\<close>

definition Project :: "ChConstraintTwoGenericBoxed \<Rightarrow> ChConstraintTwoGenericBoxed" where
  "Project c =
     (let c1 = (if l_i c < l_min c then c\<lparr>l_i := l_min c\<rparr> else c);
          c2 = (if l_i c1 > l_max c1 then c1\<lparr>l_i := l_max c1\<rparr> else c1)
      in c2)"

section \<open>ChBody\<close>

subsection \<open>Body flags\<close>

text \<open>
  Modelled from the spec: the enumeration \<^verbatim>\<open>BodyFlag\<close> is declared in the missing header
  \<^verbatim>\<open>ChBody.h\<close>. The spec describes the flags as a small enum-indexed bit-set; each flag is
  one bit of the \<^verbatim>\<open>int bflags\<close>, and different flags are different bits.
\<close>

datatype BodyFlag = LIMITSPEED | SLEEPING | USESLEEPING | NOGYROTORQUE | COULDSLEEP

fun BodyFlag_bit :: "BodyFlag \<Rightarrow> nat" where
  "BodyFlag_bit LIMITSPEED = 3"
| "BodyFlag_bit SLEEPING = 4"
| "BodyFlag_bit USESLEEPING = 5"
| "BodyFlag_bit NOGYROTORQUE = 6"
| "BodyFlag_bit COULDSLEEP = 7"

definition BodyFlag_mask :: "BodyFlag \<Rightarrow> 32 word" where
  "BodyFlag_mask f = push_bit (BodyFlag_bit f) 1"

text \<open>
  The part of the state of a \<^verbatim>\<open>ChBody\<close> that the functions below read and write. The
  entries \<open>Pos\<close>, \<open>Rot\<close>, \<open>PosDer\<close>, \<open>RotDer\<close> and \<open>AngVelLocal\<close> stand for what the accessors
  \<^verbatim>\<open>GetPos()\<close>, \<^verbatim>\<open>GetRot()\<close>, \<^verbatim>\<open>GetPosDer()\<close>, \<^verbatim>\<open>GetRotDer()\<close> and \<^verbatim>\<open>GetAngVelLocal()\<close> of the base
  class \<^verbatim>\<open>ChBodyFrame\<close> return (that class is not among the sources); \<open>BodyInertia\<close> is
  \<^verbatim>\<open>variables.GetBodyInertia()\<close>.
\<close>

record ChBody =
  fixed :: bool
  bflags :: "32 word"
  Pos :: ChVector3d
  Rot :: ChQuaterniond
  PosDer :: ChVector3d
  RotDer :: ChQuaterniond
  AngVelLocal :: ChVector3d
  BodyInertia :: ChMatrix33
  Xforce :: ChVector3d
  Xtorque :: ChVector3d
  gyro :: ChVector3d
  ChTime :: double
  sleep_time :: double
  sleep_starttime :: double
  sleep_minspeed :: double
  sleep_minwvel :: double

definition BFlagsSetAllOFF :: "ChBody \<Rightarrow> ChBody" where
  "BFlagsSetAllOFF b = b\<lparr>bflags := 0\<rparr>"

definition BFlagSetON :: "BodyFlag \<Rightarrow> ChBody \<Rightarrow> ChBody" where
  "BFlagSetON m b = b\<lparr>bflags := bflags b OR BodyFlag_mask m\<rparr>"

definition BFlagSetOFF :: "BodyFlag \<Rightarrow> ChBody \<Rightarrow> ChBody" where
  "BFlagSetOFF m b = b\<lparr>bflags := bflags b AND NOT (BodyFlag_mask m)\<rparr>"

definition BFlagGet :: "BodyFlag \<Rightarrow> ChBody \<Rightarrow> bool" where
  "BFlagGet m b = ((bflags b AND BodyFlag_mask m) \<noteq> 0)"

definition BFlagSet :: "BodyFlag \<Rightarrow> bool \<Rightarrow> ChBody \<Rightarrow> ChBody" where
  "BFlagSet m state b =
     (if state then b\<lparr>bflags := bflags b OR BodyFlag_mask m\<rparr>
      else b\<lparr>bflags := bflags b AND NOT (BodyFlag_mask m)\<rparr>)"

definition SetNoGyroTorque :: "bool \<Rightarrow> ChBody \<Rightarrow> ChBody" where
  "SetNoGyroTorque state b = BFlagSet NOGYROTORQUE state b"

definition GetNoGyroTorque :: "ChBody \<Rightarrow> bool" where
  "GetNoGyroTorque b = BFlagGet NOGYROTORQUE b"

definition SetUseSleeping :: "bool \<Rightarrow> ChBody \<Rightarrow> ChBody" where
  "SetUseSleeping state b = BFlagSet USESLEEPING state b"

definition GetUseSleeping :: "ChBody \<Rightarrow> bool" where
  "GetUseSleeping b = BFlagGet USESLEEPING b"

definition SetSleeping :: "bool \<Rightarrow> ChBody \<Rightarrow> ChBody" where
  "SetSleeping state b = BFlagSet SLEEPING state b"

definition GetSleeping :: "ChBody \<Rightarrow> bool" where
  "GetSleeping b = BFlagGet SLEEPING b"

definition IsActive :: "ChBody \<Rightarrow> bool" where
  "IsActive b = (\<not> BFlagGet SLEEPING b \<and> \<not> fixed b)"

subsection \<open>Increment and decrement of the position state\<close>

text \<open>
  Modelled from the spec: \<^verbatim>\<open>ChQuaternion::SetFromRotVec\<close> and \<^verbatim>\<open>ChQuaternion::GetRotVec\<close> are
  declared in the missing header \<^verbatim>\<open>ChQuaternion.h\<close>. The spec fixes the increment as
  \<open>q_new = q_old * exp(local_axis_angle)\<close> and the decrement as the rotation vector of
  \<open>conjugate(q_old) * q_new\<close>, the two mapping between a rotation vector (axis times
  angle, three numbers) and a quaternion. \<open>SetFromRotVec\<close> is the exponential map: the
  quaternion of the rotation whose angle is the length of the vector and whose axis is its
  direction. \<open>GetRotVec\<close> is the rotation vector of a quaternion: the direction of its
  vector part times the angle, which is twice the angle whose cosine is the scalar part.
\<close>

definition SetFromRotVec :: "ChVector3d \<Rightarrow> ChQuaterniond" where
  "SetFromRotVec w =
     (let theta = Length w
      in if theta = 0 then QUNIT
         else (let k = sin (theta / 2) / theta
               in ChQuaterniond (cos (theta / 2)) (vx w * k) (vy w * k) (vz w * k)))"

definition GetRotVec :: "ChQuaterniond \<Rightarrow> ChVector3d" where
  "GetRotVec q =
     (let s = Length (ChVector3d (e1 q) (e2 q) (e3 q))
      in if s = 0 then VNULL
         else (let k = 2 * arccos (e0 q) / s
               in ChVector3d (e1 q * k) (e2 q * k) (e3 q * k)))"

text \<open>
  The product \<^verbatim>\<open>q_old * rel_q\<close> and \<^verbatim>\<open>GetConjugate()\<close> are the quaternion product and
  conjugate that ChQuaternion.cpp implements as \<open>Qcross\<close> and \<open>Qconjugate\<close>. The vector
  \<open>x_new\<close> (respectively \<open>Dv\<close>) is passed by reference and overwritten at the body's slots
  only; the model returns it.
\<close>

definition IntStateIncrement ::
  "nat \<Rightarrow> ChVectorDynamic \<Rightarrow> ChVectorDynamic \<Rightarrow> nat \<Rightarrow> ChVectorDynamic \<Rightarrow> ChVectorDynamic" where
  "IntStateIncrement off_x x_new x off_v Dv =
     (let x_new1 = x_new[off_x := x ! off_x + Dv ! off_v];
          x_new2 = x_new1[off_x + 1 := x ! (off_x + 1) + Dv ! (off_v + 1)];
          x_new3 = x_new2[off_x + 2 := x ! (off_x + 2) + Dv ! (off_v + 2)];
          q_old = segment4 x (off_x + 3);
          rel_q = SetFromRotVec (segment3 Dv (off_v + 3));
          q_new = Qcross q_old rel_q
      in set_segment4 x_new3 (off_x + 3) q_new)"

definition IntStateGetIncrement ::
  "nat \<Rightarrow> ChVectorDynamic \<Rightarrow> ChVectorDynamic \<Rightarrow> nat \<Rightarrow> ChVectorDynamic \<Rightarrow> ChVectorDynamic" where
  "IntStateGetIncrement off_x x_new x off_v Dv =
     (let Dv1 = Dv[off_v := x_new ! off_x - x ! off_x];
          Dv2 = Dv1[off_v + 1 := x_new ! (off_x + 1) - x ! (off_x + 1)];
          Dv3 = Dv2[off_v + 2 := x_new ! (off_x + 2) - x ! (off_x + 2)];
          q_old = segment4 x (off_x + 3);
          q_new = segment4 x_new (off_x + 3);
          rel_q = Qcross (Qconjugate q_old) q_new
      in set_segment3 Dv3 (off_v + 3) (GetRotVec rel_q))"

subsection \<open>Applied forces and the gyroscopic torque\<close>

definition ComputeGyro :: "ChBody \<Rightarrow> ChBody" where
  "ComputeGyro b =
     (let Wvel = AngVelLocal b
      in b\<lparr>gyro := Vcross Wvel (MatVec (BodyInertia b) Wvel)\<rparr>)"

definition IntLoadResidual_F :: "nat \<Rightarrow> ChVectorDynamic \<Rightarrow> double \<Rightarrow> ChBody \<Rightarrow> ChVectorDynamic" where
  "IntLoadResidual_F off R c b =
     (let R1 = add_segment3 R off (Vmul (Xforce b) c)
      in if GetNoGyroTorque b
         then add_segment3 R1 (off + 3) (Vmul (Xtorque b) c)
         else add_segment3 R1 (off + 3) (Vmul (Vsub (Xtorque b) (gyro b)) c))"

subsection \<open>The sleeping heuristic\<close>

text \<open>
  The narrowing conversion \<^verbatim>\<open>float(x)\<close> of a \<^verbatim>\<open>double\<close>: the nearest number with a 24-bit
  significand, a tie going to the even significand, with the exponent not below that of
  the smallest normal single-precision number (so that small values round to a multiple
  of \<open>2\<^sup>-\<^sup>1\<^sup>4\<^sup>9\<close>). A value beyond the largest \<^verbatim>\<open>float\<close> would become an infinity, which is
  outside the model.
\<close>

definition float_of_double :: "double \<Rightarrow> double" where
  "float_of_double a =
     (if a = 0 then 0
      else (let e = max \<lfloor>log 2 \<bar>a\<bar>\<rfloor> (- 126);
                ulp = 2 powr (of_int (e - 23));
                q = a / ulp;
                f = \<lfloor>q\<rfloor>;
                n = (if q - of_int f < 1 / 2 then f
                     else if 1 / 2 < q - of_int f then f + 1
                     else if even f then f else f + 1)
            in of_int n * ulp))"

text \<open>
  \<^verbatim>\<open>TrySleeping\<close> returns a flag and changes the body; the model returns both. The field
  \<^verbatim>\<open>sleep_starttime\<close> is a \<^verbatim>\<open>float\<close>, and a reset stores \<^verbatim>\<open>float(GetChTime())\<close>.
\<close>

definition TrySleeping :: "ChBody \<Rightarrow> bool \<times> ChBody" where
  "TrySleeping b0 =
     (let b = BFlagSet COULDSLEEP False b0
      in if GetUseSleeping b then
           (if \<not> IsActive b then (False, b)
            else if LengthInf (PosDer b) < sleep_minspeed b
                    \<and> 2.0 * QLengthInf (RotDer b) < sleep_minwvel b then
              (if ChTime b - sleep_starttime b > sleep_time b
               then (True, BFlagSet COULDSLEEP True b)
               else (False, b))
            else (False, b\<lparr>sleep_starttime := float_of_double (ChTime b)\<rparr>))
         else (False, b))"

text \<open>
  A body at rest, allowed to sleep, whose timer started exactly \<open>sleep_time\<close> ago, and the
  same body a little later.
\<close>

definition resting_body :: "double \<Rightarrow> ChBody" where
  "resting_body t =
     \<lparr> fixed = False, bflags = BodyFlag_mask USESLEEPING,
       Pos = VNULL, Rot = QUNIT, PosDer = VNULL, RotDer = QNULL, AngVelLocal = VNULL,
       BodyInertia = ChMatrix33 1 0 0 0 1 0 0 0 1,
       Xforce = VNULL, Xtorque = VNULL, gyro = VNULL,
       ChTime = t, sleep_time = 1, sleep_starttime = 0,
       sleep_minspeed = 1 / 10, sleep_minwvel = 1 / 25 \<rparr>"

text \<open>
  A spinning body with applied force and torque: principal inertias 1, 2, 3 and angular
  velocity \<open>(1, 1, 0)\<close>, so that the gyroscopic term is \<open>(0, 0, 1)\<close>.
\<close>

definition spinning_body :: "bool \<Rightarrow> ChBody" where
  "spinning_body nogyro =
     SetNoGyroTorque nogyro
       \<lparr> fixed = False, bflags = 0,
         Pos = VNULL, Rot = QUNIT, PosDer = VNULL, RotDer = QNULL,
         AngVelLocal = ChVector3d 1 1 0,
         BodyInertia = ChMatrix33 1 0 0 0 2 0 0 0 3,
         Xforce = ChVector3d 1 2 3, Xtorque = ChVector3d 1 0 0, gyro = VNULL,
         ChTime = 0, sleep_time = 1, sleep_starttime = 0,
         sleep_minspeed = 1 / 10, sleep_minwvel = 1 / 25 \<rparr>"

text \<open>
  A position state (position \<open>(1, 2, 3)\<close>, rotation the unit quaternion \<open>(0, 1, 0, 0)\<close>) and
  an increment (translation \<open>(1, 1, 1)\<close>, a quarter turn about the local x axis).
\<close>

definition sample_state :: ChVectorDynamic where
  "sample_state = [1, 2, 3, 0, 1, 0, 0]"

definition sample_increment :: ChVectorDynamic where
  "sample_increment = [1, 1, 1, pi / 2, 0, 0]"

section \<open>ChShaftsMotorAngle\<close>

text \<open>
  A \<^verbatim>\<open>ChFunction\<close> is used through \<^verbatim>\<open>GetVal\<close> and \<^verbatim>\<open>GetDer\<close> only; its
  \<^verbatim>\<open>Update(mytime)\<close> ("call callbacks if any") leaves both as they are. A \<^verbatim>\<open>ChShaft\<close> is read
  through \<^verbatim>\<open>GetPos()\<close>, which returns the field \<^verbatim>\<open>pos\<close>.
\<close>

record ChFunction =
  GetVal :: "double \<Rightarrow> double"
  GetDer :: "double \<Rightarrow> double"

text \<open>\<^verbatim>\<open>ChFunctionRamp(y0, ang)\<close>, the default motion function of the motor.\<close>

definition ChFunctionRamp :: "double \<Rightarrow> double \<Rightarrow> ChFunction" where
  "ChFunctionRamp y0 ang = \<lparr> GetVal = (\<lambda>t. y0 + t * ang), GetDer = (\<lambda>t. ang) \<rparr>"

record ChShaft =
  shaft_pos :: double
  shaft_pos_dt :: double
  shaft_pos_dtdt :: double

definition GetPos :: "ChShaft \<Rightarrow> double" where
  "GetPos s = shaft_pos s"

text \<open>
  The motor holds its two shafts by pointer and only reads them; the record holds the
  shafts' current state. \<open>motor_ChTime\<close> is the \<^verbatim>\<open>ChTime\<close> of the base class
  \<^verbatim>\<open>ChPhysicsItem\<close>, returned by \<^verbatim>\<open>GetChTime()\<close>.
\<close>

record ChShaftsMotorAngle =
  shaft1 :: ChShaft
  shaft2 :: ChShaft
  motor_ChTime :: double
  f_rot :: ChFunction
  rot_offset :: double
  violation :: double
  motor_torque :: double
  constraint :: ChConstraintTwoGeneric

definition GetChTime :: "ChShaftsMotorAngle \<Rightarrow> double" where
  "GetChTime m = motor_ChTime m"

text \<open>
  Modelled from the spec: \<^verbatim>\<open>GetMotorAngle()\<close> belongs to the missing base class of the shaft
  motors. The spec writes the constraint as \<open>C = \<theta>_A(t) - \<theta>_B(t) - f(t) - offset\<close>, and the
  header documents the motor angle as the angle of shaft A with respect to shaft B.
\<close>

definition GetMotorAngle :: "ChShaftsMotorAngle \<Rightarrow> double" where
  "GetMotorAngle m = GetPos (shaft1 m) - GetPos (shaft2 m)"

text \<open>
  Modelled from the spec: \<^verbatim>\<open>ChShaftsMotorBase::Update\<close> ("inherit time changes of parent
  class") is missing; it records the new time.
\<close>

definition ChShaftsMotorBase_Update :: "double \<Rightarrow> ChShaftsMotorAngle \<Rightarrow> ChShaftsMotorAngle" where
  "ChShaftsMotorBase_Update mytime m = m\<lparr>motor_ChTime := mytime\<rparr>"

definition Update :: "double \<Rightarrow> ChShaftsMotorAngle \<Rightarrow> ChShaftsMotorAngle" where
  "Update mytime m0 =
     (let m = ChShaftsMotorBase_Update mytime m0
      in m\<lparr>violation := GetMotorAngle m - GetVal (f_rot m) mytime - rot_offset m\<rparr>)"

definition GetConstraintViolation :: "ChShaftsMotorAngle \<Rightarrow> double" where
  "GetConstraintViolation m = violation m"

definition IntLoadConstraint_C ::
  "nat \<Rightarrow> ChVectorDynamic \<Rightarrow> double \<Rightarrow> bool \<Rightarrow> double \<Rightarrow> ChShaftsMotorAngle \<Rightarrow> ChVectorDynamic" where
  "IntLoadConstraint_C off_L Qc c do_clamp recovery_clamp m =
     (let res = c * (GetMotorAngle m - GetVal (f_rot m) (GetChTime m) - rot_offset m);
          res' = (if do_clamp then min (max res (- recovery_clamp)) recovery_clamp else res)
      in Qc[off_L := Qc ! off_L + res'])"

definition IntLoadConstraint_Ct ::
  "nat \<Rightarrow> ChVectorDynamic \<Rightarrow> double \<Rightarrow> ChShaftsMotorAngle \<Rightarrow> ChVectorDynamic" where
  "IntLoadConstraint_Ct off_L Qc c m =
     (let ct = - GetDer (f_rot m) (GetChTime m)
      in Qc[off_L := Qc ! off_L + c * ct])"

definition ConstraintsBiReset :: "ChShaftsMotorAngle \<Rightarrow> ChShaftsMotorAngle" where
  "ConstraintsBiReset m = m\<lparr>constraint := (constraint m)\<lparr>b_i := 0\<rparr>\<rparr>"

text \<open>
  \<^verbatim>\<open>ConstraintsBiLoad_C\<close> takes \<^verbatim>\<open>recovery_clamp\<close> and \<^verbatim>\<open>do_clamp\<close> and uses neither; it scales
  the violation by \<^verbatim>\<open>factor\<close> when it computes \<^verbatim>\<open>res\<close> and once more when it adds \<^verbatim>\<open>res\<close>.
\<close>

definition ConstraintsBiLoad_C ::
  "double \<Rightarrow> double \<Rightarrow> bool \<Rightarrow> ChShaftsMotorAngle \<Rightarrow> ChShaftsMotorAngle" where
  "ConstraintsBiLoad_C factor recovery_clamp do_clamp m =
     (let res = factor * (GetMotorAngle m - GetVal (f_rot m) (GetChTime m) - rot_offset m)
      in m\<lparr>constraint := (constraint m)\<lparr>b_i := b_i (constraint m) + factor * res\<rparr>\<rparr>)"

definition ConstraintsBiLoad_Ct :: "double \<Rightarrow> ChShaftsMotorAngle \<Rightarrow> ChShaftsMotorAngle" where
  "ConstraintsBiLoad_Ct factor m =
     (let ct = - GetDer (f_rot m) (GetChTime m)
      in m\<lparr>constraint := (constraint m)\<lparr>b_i := b_i (constraint m) + factor * ct\<rparr>\<rparr>)"

definition ConstraintsLoadJacobians :: "ChShaftsMotorAngle \<Rightarrow> ChShaftsMotorAngle" where
  "ConstraintsLoadJacobians m =
     m\<lparr>constraint := (constraint m)\<lparr>Cq_a := (Cq_a (constraint m))[0 := 1],
                                     Cq_b := (Cq_b (constraint m))[0 := -1]\<rparr>\<rparr>"

definition ConstraintsFetch_react :: "double \<Rightarrow> ChShaftsMotorAngle \<Rightarrow> ChShaftsMotorAngle" where
  "ConstraintsFetch_react factor m = m\<lparr>motor_torque := - l_i (constraint m) * factor\<rparr>"

text \<open>
  A motor between a shaft at angle \<open>a\<close> and a shaft at angle 0, at time \<open>t\<close>, driven by
  the ramp \<open>f(t) = t\<close> with offset 0; one Jacobian entry per shaft.
\<close>

definition ramp_motor :: "double \<Rightarrow> double \<Rightarrow> ChShaftsMotorAngle" where
  "ramp_motor a t =
     \<lparr> shaft1 = \<lparr> shaft_pos = a, shaft_pos_dt = 0, shaft_pos_dtdt = 0 \<rparr>,
       shaft2 = \<lparr> shaft_pos = 0, shaft_pos_dt = 0, shaft_pos_dtdt = 0 \<rparr>,
       motor_ChTime = t, f_rot = ChFunctionRamp 0 1, rot_offset = 0,
       violation = 0, motor_torque = 0,
       constraint = \<lparr> l_i = 0, b_i = 0, Cq_a = [0], Cq_b = [0] \<rparr> \<rparr>"

section \<open>ChMatterPeriBulkElastic\<close>

text \<open>
  Modelled from the spec: \<^verbatim>\<open>GetNormalized()\<close> and the product of two \<^verbatim>\<open>ChVector\<close>s come from the
  missing vector header. Normalisation is the vector scaled by the inverse of its length
  (what the source does for a vector of length zero is not fixed by the sources at hand,
  and no theorem below depends on it). \<^verbatim>\<open>ChVector force_val = s\<close> builds the vector whose
  three components are the scalar \<open>s\<close>, \<^verbatim>\<open>force_val += s\<close> adds \<open>s\<close> to each of them, and
  \<^verbatim>\<open>vdir * force_val\<close> multiplies component by component.
\<close>

definition GetNormalized :: "ChVector3d \<Rightarrow> ChVector3d" where
  "GetNormalized a = Vmul a (1 / Length a)"

definition ChVector_of_scalar :: "double \<Rightarrow> ChVector3d" where
  "ChVector_of_scalar s = ChVector3d s s s"

definition Vmul_componentwise :: "ChVector3d \<Rightarrow> ChVector3d \<Rightarrow> ChVector3d" where
  "Vmul_componentwise a b = ChVector3d (vx a * vx b) (vy a * vy b) (vz a * vz b)"

text \<open>
  A node of the peridynamic matter, as \<^verbatim>\<open>ComputeForces\<close> sees it: \<open>X0\<close>, \<open>peri_pos\<close>,
  \<open>peri_pos_dt\<close> and \<open>horizon_radius\<close> are what \<^verbatim>\<open>GetX0()\<close>, \<^verbatim>\<open>GetPos()\<close>, \<^verbatim>\<open>GetPos_dt()\<close> and
  \<^verbatim>\<open>GetHorizonRadius()\<close> return; \<open>F_peridyn\<close>, \<open>peri_volume\<close> (the member \<^verbatim>\<open>volume\<close>) and
  \<open>peri_is_boundary\<close> (the member \<^verbatim>\<open>is_boundary\<close>) are public members.
\<close>

record ChNodePeri =
  X0 :: ChVector3d
  peri_pos :: ChVector3d
  peri_pos_dt :: ChVector3d
  horizon_radius :: double
  F_peridyn :: ChVector3d
  peri_volume :: double
  peri_is_boundary :: bool

text \<open>
  A bond holds its two end nodes by pointer; the model holds their addresses in a store of
  nodes, so that two bonds that share a node accumulate into the same \<open>F_peridyn\<close>.
\<close>

type_synonym node_store = "nat \<Rightarrow> ChNodePeri"

record ChMatterDataPerBoundBulk =
  nodeA :: nat
  nodeB :: nat
  broken :: bool
  F_per_bond :: double

text \<open>The material parameters; \<open>r_damping\<close> is the member \<^verbatim>\<open>r\<close>.\<close>

record ChMatterPeriBulkElastic =
  k_bulk :: double
  r_damping :: double
  max_stretch :: double

definition ChMatterPeriBulkElastic_default :: ChMatterPeriBulkElastic where
  "ChMatterPeriBulkElastic_default = \<lparr> k_bulk = 100, r_damping = 10, max_stretch = 0.08 \<rparr>"

text \<open>The locals of the loop body for an unbroken bond between the nodes \<open>a\<close> and \<open>b\<close>.\<close>

definition bond_vdir :: "ChNodePeri \<Rightarrow> ChNodePeri \<Rightarrow> ChVector3d" where
  "bond_vdir a b = GetNormalized (Vsub (peri_pos b) (peri_pos a))"

definition bond_stretch :: "ChNodePeri \<Rightarrow> ChNodePeri \<Rightarrow> double" where
  "bond_stretch a b =
     (let old_vdist = Vsub (X0 b) (X0 a);
          vdist = Vsub (peri_pos b) (peri_pos a);
          old_sdist = Length old_vdist;
          sdist = Length vdist
      in (sdist - old_sdist) / old_sdist)"

definition bond_force_val :: "ChMatterPeriBulkElastic \<Rightarrow> ChNodePeri \<Rightarrow> ChNodePeri \<Rightarrow> ChVector3d" where
  "bond_force_val m a b =
     (let vdir = bond_vdir a b;
          svel = Vdot vdir (Vsub (peri_pos_dt b) (peri_pos_dt a));
          stretch = bond_stretch a b;
          horizon = horizon_radius a;
          K_pih4 = 18.0 * k_bulk m / (pi * horizon * horizon * horizon * horizon);
          force_val = ChVector_of_scalar (0.5 * K_pih4 * stretch)
      in if r_damping m > 0
         then Vadd force_val (ChVector_of_scalar (0.5 * r_damping m * svel))
         else force_val)"

text \<open>
  What one unbroken bond adds to \<open>F_peridyn\<close> of its node B
  (\<^verbatim>\<open>-vdir * force_val * mbound.nodeA->volume\<close>) and of its node A
  (\<^verbatim>\<open>vdir * force_val * mbound.nodeB->volume\<close>).
\<close>

definition bond_contribution_B :: "ChMatterPeriBulkElastic \<Rightarrow> ChNodePeri \<Rightarrow> ChNodePeri \<Rightarrow> ChVector3d" where
  "bond_contribution_B m a b =
     Vmul (Vmul_componentwise (Vneg (bond_vdir a b)) (bond_force_val m a b)) (peri_volume a)"

definition bond_contribution_A :: "ChMatterPeriBulkElastic \<Rightarrow> ChNodePeri \<Rightarrow> ChNodePeri \<Rightarrow> ChVector3d" where
  "bond_contribution_A m a b =
     Vmul (Vmul_componentwise (bond_vdir a b) (bond_force_val m a b)) (peri_volume b)"

text \<open>
  The body of the loop over the bonds. It returns the bond (\<open>None\<close> when the body erases
  it from the map) and the node store. The two accumulations write \<open>F_peridyn\<close> only, so
  the volume that the second one reads is the one the node had before the first.
\<close>

definition ComputeForces_bound ::
  "ChMatterPeriBulkElastic \<Rightarrow> ChMatterDataPerBoundBulk \<Rightarrow> node_store
     \<Rightarrow> ChMatterDataPerBoundBulk option \<times> node_store" where
  "ComputeForces_bound m mbound nodes =
     (let A = nodeA mbound; B = nodeB mbound
      in if \<not> broken mbound then
           (let a = nodes A; b = nodes B;
                stretch = bond_stretch a b;
                nodes1 = nodes(B := (nodes B)\<lparr>F_peridyn :=
                           Vadd (F_peridyn (nodes B)) (bond_contribution_B m a b)\<rparr>);
                nodes2 = nodes1(A := (nodes1 A)\<lparr>F_peridyn :=
                           Vadd (F_peridyn (nodes1 A)) (bond_contribution_A m a b)\<rparr>)
            in if stretch > max_stretch m then
                 (let nodes3 = nodes2(A := (nodes2 A)\<lparr>peri_is_boundary := True\<rparr>);
                      nodes4 = nodes3(B := (nodes3 B)\<lparr>peri_is_boundary := True\<rparr>)
                  in (Some (mbound\<lparr>broken := True\<rparr>), nodes4))
               else (Some mbound, nodes2))
         else if Length (Vsub (peri_pos (nodes B)) (peri_pos (nodes A))) > horizon_radius (nodes A)
              then (None, nodes)
              else (Some mbound, nodes))"

text \<open>\<^verbatim>\<open>ComputeForces\<close>: the loop over the map of bonds, in the order of the map.\<close>

fun ComputeForces ::
  "ChMatterPeriBulkElastic \<Rightarrow> (nat \<times> ChMatterDataPerBoundBulk) list \<Rightarrow> node_store
     \<Rightarrow> (nat \<times> ChMatterDataPerBoundBulk) list \<times> node_store" where
  "ComputeForces m [] nodes = ([], nodes)"
| "ComputeForces m ((k, mbound) # bounds) nodes =
     (case ComputeForces_bound m mbound nodes of
        (None, nodes') \<Rightarrow> ComputeForces m bounds nodes'
      | (Some mbound', nodes') \<Rightarrow>
          (case ComputeForces m bounds nodes' of
             (bounds', nodes'') \<Rightarrow> ((k, mbound') # bounds', nodes'')))"

text \<open>
  Two nodes one unit apart at rest, the second now two units away and moving off with
  unit speed; the first has volume 1, the second volume 2.
\<close>

definition peri_node_a :: ChNodePeri where
  "peri_node_a = \<lparr> X0 = ChVector3d 0 0 0, peri_pos = ChVector3d 0 0 0,
                   peri_pos_dt = ChVector3d 0 0 0, horizon_radius = 1,
                   F_peridyn = ChVector3d 0 0 0, peri_volume = 1, peri_is_boundary = False \<rparr>"

definition peri_node_b :: ChNodePeri where
  "peri_node_b = \<lparr> X0 = ChVector3d 1 0 0, peri_pos = ChVector3d 2 0 0,
                   peri_pos_dt = ChVector3d 1 0 0, horizon_radius = 1,
                   F_peridyn = ChVector3d 0 0 0, peri_volume = 2, peri_is_boundary = False \<rparr>"

section \<open>ChMatterPeridynamics (continuum node cluster)\<close>

subsection \<open>3x3 matrices and tensors in Voigt form\<close>

text \<open>
  Modelled from the spec: the operations of \<^verbatim>\<open>ChMatrix33\<close> used by the force evaluation
  (\<^verbatim>\<open>setZero\<close>, \<^verbatim>\<open>determinant\<close>, \<^verbatim>\<open>inverse\<close>, \<^verbatim>\<open>transpose\<close>, product, product with a scalar) are
  supplied by the linear-algebra library; the spec asks for composition and inversion
  with exact semantics. The inverse is the adjugate divided by the determinant.
\<close>

definition ChMatrix33_zero :: ChMatrix33 where
  "ChMatrix33_zero = ChMatrix33 0 0 0 0 0 0 0 0 0"

definition determinant :: "ChMatrix33 \<Rightarrow> double" where
  "determinant A =
     m00 A * (m11 A * m22 A - m12 A * m21 A)
     - m01 A * (m10 A * m22 A - m12 A * m20 A)
     + m02 A * (m10 A * m21 A - m11 A * m20 A)"

definition Minverse :: "ChMatrix33 \<Rightarrow> ChMatrix33" where
  "Minverse A =
     (let d = determinant A
      in ChMatrix33
           ((m11 A * m22 A - m12 A * m21 A) / d) ((m02 A * m21 A - m01 A * m22 A) / d)
           ((m01 A * m12 A - m02 A * m11 A) / d)
           ((m12 A * m20 A - m10 A * m22 A) / d) ((m00 A * m22 A - m02 A * m20 A) / d)
           ((m02 A * m10 A - m00 A * m12 A) / d)
           ((m10 A * m21 A - m11 A * m20 A) / d) ((m01 A * m20 A - m00 A * m21 A) / d)
           ((m00 A * m11 A - m01 A * m10 A) / d))"

definition Mtranspose :: "ChMatrix33 \<Rightarrow> ChMatrix33" where
  "Mtranspose A = ChMatrix33 (m00 A) (m10 A) (m20 A) (m01 A) (m11 A) (m21 A) (m02 A) (m12 A) (m22 A)"

definition Mmul :: "ChMatrix33 \<Rightarrow> ChMatrix33 \<Rightarrow> ChMatrix33" where
  "Mmul A B = ChMatrix33
     (m00 A * m00 B + m01 A * m10 B + m02 A * m20 B)
     (m00 A * m01 B + m01 A * m11 B + m02 A * m21 B)
     (m00 A * m02 B + m01 A * m12 B + m02 A * m22 B)
     (m10 A * m00 B + m11 A * m10 B + m12 A * m20 B)
     (m10 A * m01 B + m11 A * m11 B + m12 A * m21 B)
     (m10 A * m02 B + m11 A * m12 B + m12 A * m22 B)
     (m20 A * m00 B + m21 A * m10 B + m22 A * m20 B)
     (m20 A * m01 B + m21 A * m11 B + m22 A * m21 B)
     (m20 A * m02 B + m21 A * m12 B + m22 A * m22 B)"

definition Mscale :: "double \<Rightarrow> ChMatrix33 \<Rightarrow> ChMatrix33" where
  "Mscale s A = ChMatrix33 (s * m00 A) (s * m01 A) (s * m02 A) (s * m10 A) (s * m11 A) (s * m12 A)
                           (s * m20 A) (s * m21 A) (s * m22 A)"

text \<open>\<^verbatim>\<open>M(0, 0) += d; M(1, 1) += d; M(2, 2) += d;\<close>\<close>

definition Madd_diagonal :: "ChMatrix33 \<Rightarrow> double \<Rightarrow> ChMatrix33" where
  "Madd_diagonal A d = ChMatrix33 (m00 A + d) (m01 A) (m02 A) (m10 A) (m11 A + d) (m12 A)
                                  (m20 A) (m21 A) (m22 A + d)"

text \<open>
  Modelled from the spec: \<^verbatim>\<open>ChStrainTensor\<close> and \<^verbatim>\<open>ChStressTensor\<close> (missing header) hold a
  symmetric 3x3 tensor by its six independent components; \<^verbatim>\<open>ConvertFromMatrix\<close> reads them
  from the diagonal and the upper triangle, \<^verbatim>\<open>ConvertToMatrix\<close> fills the matrix
  symmetrically, and \<^verbatim>\<open>+\<close>, \<^verbatim>\<open>-\<close> and \<^verbatim>\<open>setZero\<close> act on the components.
\<close>

datatype ChVoightTensor = ChVoightTensor
  (XX: double) (YY: double) (ZZ: double) (XY: double) (XZ: double) (YZ: double)

type_synonym ChStrainTensor = ChVoightTensor
type_synonym ChStressTensor = ChVoightTensor

definition ChVoightTensor_zero :: ChVoightTensor where
  "ChVoightTensor_zero = ChVoightTensor 0 0 0 0 0 0"

definition Tadd :: "ChVoightTensor \<Rightarrow> ChVoightTensor \<Rightarrow> ChVoightTensor" where
  "Tadd s t = ChVoightTensor (XX s + XX t) (YY s + YY t) (ZZ s + ZZ t)
                             (XY s + XY t) (XZ s + XZ t) (YZ s + YZ t)"

definition Tsub :: "ChVoightTensor \<Rightarrow> ChVoightTensor \<Rightarrow> ChVoightTensor" where
  "Tsub s t = ChVoightTensor (XX s - XX t) (YY s - YY t) (ZZ s - ZZ t)
                             (XY s - XY t) (XZ s - XZ t) (YZ s - YZ t)"

definition ConvertFromMatrix :: "ChMatrix33 \<Rightarrow> ChVoightTensor" where
  "ConvertFromMatrix A = ChVoightTensor (m00 A) (m11 A) (m22 A) (m01 A) (m02 A) (m12 A)"

definition ConvertToMatrix :: "ChVoightTensor \<Rightarrow> ChMatrix33" where
  "ConvertToMatrix t = ChMatrix33 (XX t) (XY t) (XZ t) (XY t) (YY t) (YZ t) (XZ t) (YZ t) (ZZ t)"

subsection \<open>Nodes, material and container\<close>

text \<open>
  The elastoplastic material is used through two methods, each writing its result into its
  first argument: \<^verbatim>\<open>ComputeReturnMapping(dEp, t_strain, e_strain, p_strain)\<close> and
  \<^verbatim>\<open>ComputeElasticStress(stress, strain)\<close>. Their bodies are not among the sources; the record
  carries them as functions.
\<close>

record ChContinuumElastoplastic =
  ComputeReturnMapping :: "ChStrainTensor \<Rightarrow> ChStrainTensor \<Rightarrow> ChStrainTensor \<Rightarrow> ChStrainTensor"
  ComputeElasticStress :: "ChStrainTensor \<Rightarrow> ChStressTensor"
  material_density :: double
  flow_rate :: double

record ChNodePeridynamics =
  pos :: ChVector3d
  pos_dt :: ChVector3d
  pos_ref :: ChVector3d
  UserForce :: ChVector3d
  mass :: double
  volume :: double
  density :: double
  h_rad :: double
  coll_rad :: double
  hardening :: double
  is_elastic :: bool
  is_boundary :: bool
  J :: ChMatrix33
  Amoment :: ChMatrix33
  FA :: ChMatrix33
  t_strain :: ChStrainTensor
  p_strain :: ChStrainTensor
  e_strain :: ChStrainTensor
  e_stress :: ChStressTensor

text \<open>
  The default constructor of the node. The members it does not mention (velocity, flags,
  matrices and tensors) have their defaults in the missing header; the model starts them
  at zero and \<open>False\<close>.
\<close>

definition ChNodePeridynamics_new :: ChNodePeridynamics where
  "ChNodePeridynamics_new =
     \<lparr> pos = VNULL, pos_dt = VNULL, pos_ref = VNULL, UserForce = VNULL,
       mass = 0.01, volume = 0.01, density = 0.01 / 0.01,
       h_rad = 0.1, coll_rad = 0.001, hardening = 0,
       is_elastic = False, is_boundary = False,
       J = ChMatrix33_zero, Amoment = ChMatrix33_zero, FA = ChMatrix33_zero,
       t_strain = ChVoightTensor_zero, p_strain = ChVoightTensor_zero,
       e_strain = ChVoightTensor_zero, e_stress = ChVoightTensor_zero \<rparr>"

record ChMatterPeridynamics =
  nodes :: "ChNodePeridynamics list"
  material :: ChContinuumElastoplastic
  viscosity :: double
  do_collide :: bool

text \<open>
  \<^verbatim>\<open>AddNode\<close> appends a new node to the container and returns a pointer to it; the model
  returns the node that is appended (the collision shape it receives is not modelled).
\<close>

definition AddNode :: "ChVector3d \<Rightarrow> double \<Rightarrow> ChNodePeridynamics" where
  "AddNode initial_state mhorizon =
     ChNodePeridynamics_new\<lparr>pos := initial_state, pos_ref := initial_state, h_rad := mhorizon\<rparr>"

subsection \<open>FillBox\<close>

text \<open>
  The cast \<^verbatim>\<open>(int)(size.x() / spacing)\<close> truncates towards zero (a quotient outside the range
  of \<^verbatim>\<open>int\<close> is undefined behaviour in the source and is not modelled).
\<close>

definition double_to_int :: "double \<Rightarrow> int" where
  "double_to_int a = (if 0 \<le> a then \<lfloor>a\<rfloor> else \<lceil>a\<rceil>)"

text \<open>
  \<^verbatim>\<open>ChRandom()\<close> draws from a global generator. The model takes the sequence of draws
  \<open>rnd\<close> and the number \<open>k\<close> of draws made so far; the three draws of one position are
  taken in the order x, y, z.
\<close>

definition random_offset :: "(nat \<Rightarrow> double) \<Rightarrow> nat \<Rightarrow> double \<Rightarrow> double \<Rightarrow> ChVector3d" where
  "random_offset rnd k mrandomness spacing =
     ChVector3d (mrandomness * rnd k * spacing) (mrandomness * rnd (k + 1) * spacing)
                (mrandomness * rnd (k + 2) * spacing)"

text \<open>
  The body of the innermost loop of \<^verbatim>\<open>FillBox\<close>, on the list of nodes, the counter
  \<^verbatim>\<open>totsamples\<close> and the number of random draws; \<open>boxcoords\<close> is the map
  \<^verbatim>\<open>boxcoords.TransformLocalToParent\<close>, and \<open>bsize\<close> is the parameter \<^verbatim>\<open>size\<close>.
\<close>

definition FillBox_body ::
  "ChVector3d \<Rightarrow> double \<Rightarrow> (ChVector3d \<Rightarrow> ChVector3d) \<Rightarrow> bool \<Rightarrow> double \<Rightarrow> double
     \<Rightarrow> (nat \<Rightarrow> double) \<Rightarrow> int \<Rightarrow> int \<Rightarrow> int \<Rightarrow> int \<Rightarrow> int \<Rightarrow> int
     \<Rightarrow> ChNodePeridynamics list \<times> int \<times> nat \<Rightarrow> ChNodePeridynamics list \<times> int \<times> nat" where
  "FillBox_body bsize spacing boxcoords do_centeredcube horizon mrandomness rnd
       samples_x samples_y samples_z ix iy iz st =
     (case st of (ns, totsamples, k) \<Rightarrow>
       (let pos0 = ChVector3d (of_int ix * spacing - 0.5 * vx bsize)
                              (of_int iy * spacing - 0.5 * vy bsize)
                              (of_int iz * spacing - 0.5 * vz bsize);
            pos1 = Vadd pos0 (random_offset rnd k mrandomness spacing);
            newp = (AddNode (boxcoords pos1) horizon)\<lparr>is_elastic := True\<rparr>;
            newp' = (if ix = 0 \<or> ix = samples_x - 1 \<or> iy = 0 \<or> iy = samples_y - 1
                        \<or> iz = 0 \<or> iz = samples_z - 1
                     then newp\<lparr>is_boundary := True\<rparr> else newp);
            ns1 = ns @ [newp'];
            totsamples1 = totsamples + 1;
            k1 = k + 3
        in if do_centeredcube
              \<and> \<not> (ix = samples_x - 1 \<or> iy = samples_y - 1 \<or> iz = samples_z - 1)
           then
             (let pos2 = Vadd pos1 (Vmul (ChVector3d spacing spacing spacing) 0.5);
                  pos3 = Vadd pos2 (random_offset rnd k1 mrandomness spacing);
                  newp2 = (AddNode (boxcoords pos3) horizon)\<lparr>is_elastic := True\<rparr>
              in (ns1 @ [newp2], totsamples1 + 1, k1 + 3))
           else (ns1, totsamples1, k1)))"

text \<open>The three nested \<^verbatim>\<open>for\<close> loops; a bound that is not positive gives no iteration.\<close>

definition FillBox_loops ::
  "ChVector3d \<Rightarrow> double \<Rightarrow> (ChVector3d \<Rightarrow> ChVector3d) \<Rightarrow> bool \<Rightarrow> double \<Rightarrow> double
     \<Rightarrow> (nat \<Rightarrow> double) \<Rightarrow> int \<Rightarrow> int \<Rightarrow> int
     \<Rightarrow> ChNodePeridynamics list \<times> int \<times> nat \<Rightarrow> ChNodePeridynamics list \<times> int \<times> nat" where
  "FillBox_loops bsize spacing boxcoords do_centeredcube horizon mrandomness rnd
       samples_x samples_y samples_z st =
     fold (\<lambda>ix. fold (\<lambda>iy. fold (\<lambda>iz.
             FillBox_body bsize spacing boxcoords do_centeredcube horizon mrandomness rnd
               samples_x samples_y samples_z (int ix) (int iy) (int iz))
           [0..<nat samples_z]) [0..<nat samples_y]) [0..<nat samples_x] st"

text \<open>
  \<^verbatim>\<open>FillBox\<close> returns the container and the number of random draws made. The final loop
  sets the mass of every node of the container, the ones it held before the call
  included.
\<close>

definition FillBox ::
  "ChVector3d \<Rightarrow> double \<Rightarrow> double \<Rightarrow> (ChVector3d \<Rightarrow> ChVector3d) \<Rightarrow> bool \<Rightarrow> double \<Rightarrow> double
     \<Rightarrow> (nat \<Rightarrow> double) \<Rightarrow> nat \<Rightarrow> ChMatterPeridynamics \<Rightarrow> ChMatterPeridynamics \<times> nat" where
  "FillBox bsize spacing initial_density boxcoords do_centeredcube horizon_sfactor randomness
       rnd k0 matter =
     (let samples_x = double_to_int (vx bsize / spacing);
          samples_y = double_to_int (vy bsize / spacing);
          samples_z = double_to_int (vz bsize / spacing);
          mrandomness = (if do_centeredcube then randomness * 0.5 else randomness);
          horizon = horizon_sfactor * spacing
      in case FillBox_loops bsize spacing boxcoords do_centeredcube horizon mrandomness rnd
                samples_x samples_y samples_z (nodes matter, 0, k0) of
           (ns, totsamples, k) \<Rightarrow>
             (let mtotvol = vx bsize * vy bsize * vz bsize;
                  mtotmass = mtotvol * initial_density;
                  nodemass = mtotmass / of_int totsamples
              in (matter\<lparr>nodes := map (\<lambda>mnode. mnode\<lparr>mass := nodemass\<rparr>) ns,
                         material := (material matter)\<lparr>material_density := initial_density\<rparr>\<rparr>,
                  k)))"

subsection \<open>The per-node phase of the force evaluation\<close>

text \<open>
  Phase 1 and phase 3 of \<^verbatim>\<open>IntLoadResidual_F\<close>, which \<^verbatim>\<open>VariablesFbLoadForces\<close> repeats word
  for word. Each iteration of the two loops reads and writes its own node only.
\<close>

definition node_reset :: "ChNodePeridynamics \<Rightarrow> ChNodePeridynamics" where
  "node_reset n =
     n\<lparr>J := ChMatrix33_zero, Amoment := ChMatrix33_zero, t_strain := ChVoightTensor_zero,
       e_stress := ChVoightTensor_zero, UserForce := VNULL, density := 0\<rparr>"

definition node_invert_and_stress ::
  "ChContinuumElastoplastic \<Rightarrow> ChNodePeridynamics \<Rightarrow> ChNodePeridynamics" where
  "node_invert_and_stress mat mnode0 =
     (let mnode = mnode0\<lparr>volume := (if density mnode0 > 0 then mass mnode0 / density mnode0 else 0)\<rparr>;
          M_tmp = Amoment mnode
      in if \<bar>determinant M_tmp\<bar> < 0.00003 then
           mnode\<lparr>Amoment := ChMatrix33_zero, e_strain := ChVoightTensor_zero\<rparr>
         else
           (let n1 = mnode\<lparr>Amoment := Minverse M_tmp\<rparr>;
                M_tmp1 = Madd_diagonal (Mmul (Amoment n1) (J n1)) 1;
                n2 = n1\<lparr>J := Mtranspose M_tmp1\<rparr>;
                mtensor = Madd_diagonal (Mmul M_tmp1 (J n2)) (- 1);
                n3 = n2\<lparr>t_strain := ConvertFromMatrix mtensor\<rparr>;
                strainplasticflow =
                  ComputeReturnMapping mat (t_strain n3) (e_strain n3) (p_strain n3);
                proj_e_strain = Tadd (Tsub (e_strain n3) strainplasticflow) (t_strain n3);
                n4 = n3\<lparr>e_stress := ComputeElasticStress mat proj_e_strain\<rparr>;
                mtensor1 = ConvertToMatrix (e_stress n4)
            in n4\<lparr>FA := Mmul (Mmul (Mscale (2 * volume n4) (J n4)) mtensor1) (Amoment n4)\<rparr>))"

text \<open>
  The two functions differ in their last phase only: \<^verbatim>\<open>IntLoadResidual_F\<close> adds \<open>c\<close> times
  the total force of node \<open>j\<close> to the residual at \<open>off + 3 j\<close>, \<^verbatim>\<open>VariablesFbLoadForces\<close> adds
  \<open>factor\<close> times it to the node's own \<open>fb\<close> vector. The two passes over the bonds
  (\<^verbatim>\<open>AccumulateStep1\<close>, \<^verbatim>\<open>AccumulateStep2\<close>) belong to the proximity container, which is not
  among the sources; they are parameters, and so is the gravity \<open>G_acc\<close> of the system.
\<close>

definition force_phases_1_to_4 ::
  "(ChNodePeridynamics list \<Rightarrow> ChNodePeridynamics list)
     \<Rightarrow> (ChNodePeridynamics list \<Rightarrow> ChNodePeridynamics list)
     \<Rightarrow> ChMatterPeridynamics \<Rightarrow> ChMatterPeridynamics" where
  "force_phases_1_to_4 AccumulateStep1 AccumulateStep2 matter =
     (let ns1 = map node_reset (nodes matter);
          ns2 = AccumulateStep1 ns1;
          ns3 = map (node_invert_and_stress (material matter)) ns2;
          ns4 = AccumulateStep2 ns3
      in matter\<lparr>nodes := ns4\<rparr>)"

definition node_TotForce :: "ChVector3d \<Rightarrow> ChNodePeridynamics \<Rightarrow> ChVector3d" where
  "node_TotForce G_acc n = Vadd (UserForce n) (Vmul G_acc (mass n))"

fun load_node_forces ::
  "ChVector3d \<Rightarrow> double \<Rightarrow> nat \<Rightarrow> ChNodePeridynamics list \<Rightarrow> ChVectorDynamic \<Rightarrow> ChVectorDynamic" where
  "load_node_forces G_acc c off [] R = R"
| "load_node_forces G_acc c off (n # ns) R =
     load_node_forces G_acc c (off + 3) ns (add_segment3 R off (Vmul (node_TotForce G_acc n) c))"

definition Matter_IntLoadResidual_F ::
  "(ChNodePeridynamics list \<Rightarrow> ChNodePeridynamics list)
     \<Rightarrow> (ChNodePeridynamics list \<Rightarrow> ChNodePeridynamics list) \<Rightarrow> ChVector3d
     \<Rightarrow> nat \<Rightarrow> ChVectorDynamic \<Rightarrow> double \<Rightarrow> ChMatterPeridynamics
     \<Rightarrow> ChVectorDynamic \<times> ChMatterPeridynamics" where
  "Matter_IntLoadResidual_F AccumulateStep1 AccumulateStep2 G_acc off R c matter =
     (let matter' = force_phases_1_to_4 AccumulateStep1 AccumulateStep2 matter
      in (load_node_forces G_acc c off (nodes matter') R, matter'))"

definition Matter_VariablesFbLoadForces ::
  "(ChNodePeridynamics list \<Rightarrow> ChNodePeridynamics list)
     \<Rightarrow> (ChNodePeridynamics list \<Rightarrow> ChNodePeridynamics list) \<Rightarrow> ChVector3d
     \<Rightarrow> double \<Rightarrow> ChVector3d list \<Rightarrow> ChMatterPeridynamics
     \<Rightarrow> ChVector3d list \<times> ChMatterPeridynamics" where
  "Matter_VariablesFbLoadForces AccumulateStep1 AccumulateStep2 G_acc factor fbs matter =
     (let matter' = force_phases_1_to_4 AccumulateStep1 AccumulateStep2 matter
      in (map (\<lambda>(fb, n). Vadd fb (Vmul (node_TotForce G_acc n) factor)) (zip fbs (nodes matter')),
          matter'))"

text \<open>A material without plastic flow whose stress equals its strain.\<close>

definition unit_material :: ChContinuumElastoplastic where
  "unit_material =
     \<lparr> ComputeReturnMapping = (\<lambda>t e p. ChVoightTensor_zero), ComputeElasticStress = (\<lambda>s. s),
       material_density = 1000, flow_rate = 1 \<rparr>"






text \<open>An empty container.\<close>

definition empty_matter :: ChMatterPeridynamics where
  "empty_matter = \<lparr> nodes = [], material = unit_material, viscosity = 0, do_collide = False \<rparr>"

section \<open>ChLcpSolverParallelDVI\<close>

subsection \<open>Vectors and sparse matrices of the linear-algebra library\<close>

text \<open>
  Modelled from the spec: \<^verbatim>\<open>DynamicVector<real>\<close> and \<^verbatim>\<open>CompressedMatrix<real>\<close> come from the
  linear-algebra library, of which the spec asks sparse assembly, transpose and
  matrix-vector product. A vector is the list of its entries; a matrix is its two
  dimensions and its entries (how the non-zeros are stored, and the capacity that
  \<^verbatim>\<open>CLEAR_RESERVE_RESIZE\<close> reserves, are not modelled). The operands of the expressions in
  the solver have matching sizes; on lists of different length the sum below stops at the
  shorter one.
\<close>

type_synonym DynamicVector = "double list"

text \<open>\<open>trans_mat\<close> is the library's \<^verbatim>\<open>trans\<close>.\<close>

record CompressedMatrix =
  nrows :: nat
  ncols :: nat
  entry :: "nat \<Rightarrow> nat \<Rightarrow> double"

definition vec_zero :: "nat \<Rightarrow> DynamicVector" where
  "vec_zero n = replicate n 0"

definition vec_add :: "DynamicVector \<Rightarrow> DynamicVector \<Rightarrow> DynamicVector" where
  "vec_add a c = map2 (+) a c"

definition vec_sub :: "DynamicVector \<Rightarrow> DynamicVector \<Rightarrow> DynamicVector" where
  "vec_sub a c = map2 (-) a c"

definition vec_neg :: "DynamicVector \<Rightarrow> DynamicVector" where
  "vec_neg a = map uminus a"

definition mat_zero :: "nat \<Rightarrow> nat \<Rightarrow> CompressedMatrix" where
  "mat_zero m n = \<lparr> nrows = m, ncols = n, entry = (\<lambda>i j. 0) \<rparr>"

definition trans_mat :: "CompressedMatrix \<Rightarrow> CompressedMatrix" where
  "trans_mat A = \<lparr> nrows = ncols A, ncols = nrows A, entry = (\<lambda>i j. entry A j i) \<rparr>"

definition mat_vec :: "CompressedMatrix \<Rightarrow> DynamicVector \<Rightarrow> DynamicVector" where
  "mat_vec A u = map (\<lambda>i. \<Sum>j\<leftarrow>[0..<ncols A]. entry A i j * u ! j) [0..<nrows A]"

definition mat_mat :: "CompressedMatrix \<Rightarrow> CompressedMatrix \<Rightarrow> CompressedMatrix" where
  "mat_mat A C =
     \<lparr> nrows = nrows A, ncols = ncols C,
       entry = (\<lambda>i j. \<Sum>k\<leftarrow>[0..<ncols A]. entry A i k * entry C k j) \<rparr>"

subsection \<open>The data manager\<close>

datatype SOLVERMODE = NORMAL | SLIDING | SPINNING | BILATERAL

text \<open>
  The fields of \<^verbatim>\<open>data_manager\<close> that the assembly routines and \<^verbatim>\<open>ComputeImpulses\<close> use. The
  entries \<open>host_...\<close> are the members of \<^verbatim>\<open>data_manager->host_data\<close>; \<open>system_timer\<close> is the list
  of the timers that have been started and not stopped. The counters are \<^verbatim>\<open>uint\<close>.
\<close>

record ChParallelDataManager =
  num_constraints :: "32 word"
  num_unilaterals :: "32 word"
  num_bilaterals :: "32 word"
  nnz_bilaterals :: "32 word"
  num_rigid_contacts :: "32 word"
  num_dof :: "32 word"
  solver_mode :: SOLVERMODE
  system_timer :: "string list"
  host_D_T :: CompressedMatrix
  host_D :: CompressedMatrix
  host_M_invD :: CompressedMatrix
  host_M_inv :: CompressedMatrix
  host_M_invk :: DynamicVector
  host_E :: DynamicVector
  host_b :: DynamicVector
  host_R_full :: DynamicVector
  host_gamma :: DynamicVector
  host_hf :: DynamicVector
  host_v :: DynamicVector

definition timer_start :: "string \<Rightarrow> ChParallelDataManager \<Rightarrow> ChParallelDataManager" where
  "timer_start name dm = dm\<lparr>system_timer := name # system_timer dm\<rparr>"

definition timer_stop :: "string \<Rightarrow> ChParallelDataManager \<Rightarrow> ChParallelDataManager" where
  "timer_stop name dm = dm\<lparr>system_timer := removeAll name (system_timer dm)\<rparr>"

text \<open>
  The four constraint containers (\<^verbatim>\<open>rigid_rigid\<close>, \<^verbatim>\<open>bilateral\<close>, \<^verbatim>\<open>node_container\<close>,
  \<^verbatim>\<open>fea_container\<close>) are objects of classes that are not among the sources. Each is used
  through the methods below, which read and write the data manager.
\<close>

record constraint_container =
  GenerateSparsity :: "ChParallelDataManager \<Rightarrow> ChParallelDataManager"
  Build_D :: "ChParallelDataManager \<Rightarrow> ChParallelDataManager"
  Build_E :: "ChParallelDataManager \<Rightarrow> ChParallelDataManager"
  Build_b :: "ChParallelDataManager \<Rightarrow> ChParallelDataManager"
  GetNumConstraints :: "32 word"
  GetNumNonZeros :: "32 word"

record constraint_containers =
  rigid_rigid :: constraint_container
  bilateral :: constraint_container
  node_container :: constraint_container
  fea_container :: constraint_container

subsection \<open>Assembly of D, E and R, and the velocity update\<close>

text \<open>
  \<^verbatim>\<open>num_constraints <= 0\<close> compares an unsigned counter with zero. The row and non-zero
  counts are computed in 32-bit arithmetic and passed on as sizes.
\<close>

definition ComputeD :: "constraint_containers \<Rightarrow> ChParallelDataManager \<Rightarrow> ChParallelDataManager" where
  "ComputeD cs dm0 =
     (let dm = timer_start ''ChLcpSolverParallel_D'' dm0
      in if num_constraints dm \<le> 0 then dm
         else
           (let num_dof' = num_dof dm;
                num_rigid_contacts' = num_rigid_contacts dm;
                num_normal = 1 * num_rigid_contacts';
                num_tangential = 2 * num_rigid_contacts';
                num_spinning = 3 * num_rigid_contacts';
                num_fluid_fluid = GetNumConstraints (node_container cs);
                num_fem = GetNumConstraints (fea_container cs);
                num_rows0 = num_bilaterals dm + num_fluid_fluid + num_fem;
                num_rows = (case solver_mode dm of
                              NORMAL \<Rightarrow> num_rows0 + num_normal
                            | SLIDING \<Rightarrow> num_rows0 + (num_normal + num_tangential)
                            | SPINNING \<Rightarrow> num_rows0 + (num_normal + num_tangential + num_spinning)
                            | BILATERAL \<Rightarrow> num_rows0);
                dm1 = dm\<lparr>host_D_T := mat_zero (unat num_rows) (unat num_dof')\<rparr>;
                dm2 = dm1\<lparr>host_M_invD := mat_zero (unat num_dof') (unat num_rows)\<rparr>;
                dm3 = GenerateSparsity (rigid_rigid cs) dm2;
                dm4 = GenerateSparsity (bilateral cs) dm3;
                dm5 = GenerateSparsity (node_container cs) dm4;
                dm6 = GenerateSparsity (fea_container cs) dm5;
                dm7 = Build_D (rigid_rigid cs) dm6;
                dm8 = Build_D (bilateral cs) dm7;
                dm9 = Build_D (node_container cs) dm8;
                dm10 = Build_D (fea_container cs) dm9;
                dm11 = dm10\<lparr>host_D := trans_mat (host_D_T dm10)\<rparr>;
                dm12 = dm11\<lparr>host_M_invD := mat_mat (host_M_inv dm11) (host_D dm11)\<rparr>
            in timer_stop ''ChLcpSolverParallel_D'' dm12))"

definition ComputeE :: "constraint_containers \<Rightarrow> ChParallelDataManager \<Rightarrow> ChParallelDataManager" where
  "ComputeE cs dm0 =
     (let dm = timer_start ''ChLcpSolverParallel_E'' dm0
      in if num_constraints dm \<le> 0 then dm
         else
           (let dm1 = dm\<lparr>host_E := vec_zero (unat (num_constraints dm))\<rparr>;
                dm2 = Build_E (rigid_rigid cs) dm1;
                dm3 = Build_E (bilateral cs) dm2;
                dm4 = Build_E (fea_container cs) dm3;
                dm5 = Build_E (node_container cs) dm4
            in timer_stop ''ChLcpSolverParallel_E'' dm5))"

definition ComputeR :: "constraint_containers \<Rightarrow> ChParallelDataManager \<Rightarrow> ChParallelDataManager" where
  "ComputeR cs dm0 =
     (let dm = timer_start ''ChLcpSolverParallel_R'' dm0
      in if num_constraints dm \<le> 0 then dm
         else
           (let dm1 = dm\<lparr>host_b := vec_zero (unat (num_constraints dm))\<rparr>;
                dm2 = dm1\<lparr>host_R_full := vec_zero (unat (num_constraints dm1))\<rparr>;
                dm3 = Build_b (rigid_rigid cs) dm2;
                dm4 = Build_b (bilateral cs) dm3;
                dm5 = Build_b (node_container cs) dm4;
                dm6 = Build_b (fea_container cs) dm5;
                dm7 = dm6\<lparr>host_R_full :=
                        vec_sub (vec_neg (host_b dm6)) (mat_vec (host_D_T dm6) (host_M_invk dm6))\<rparr>
            in timer_stop ''ChLcpSolverParallel_R'' dm7))"

definition ComputeImpulses :: "ChParallelDataManager \<Rightarrow> ChParallelDataManager" where
  "ComputeImpulses dm =
     (if num_constraints dm > 0 then
        dm\<lparr>host_v := vec_add (vec_add (host_v dm) (mat_vec (host_M_inv dm) (host_hf dm)))
                          (mat_vec (host_M_invD dm) (host_gamma dm))\<rparr>
      else
        dm\<lparr>host_v := vec_add (host_v dm) (mat_vec (host_M_inv dm) (host_hf dm))\<rparr>)"

text \<open>
  Two bodies' worth of data: velocities \<open>(1, 2)\<close>, inverse masses \<open>1/2\<close> and \<open>1/4\<close>, impulses
  \<open>(2, 4)\<close>; with \<open>n\<close> constraints recorded, a one-column \<open>M_invD\<close> of ones and multiplier 3.
\<close>

definition sample_data_manager :: "32 word \<Rightarrow> ChParallelDataManager" where
  "sample_data_manager n =
     \<lparr> num_constraints = n, num_unilaterals = 0, num_bilaterals = n, nnz_bilaterals = 0,
       num_rigid_contacts = 0, num_dof = 2, solver_mode = NORMAL, system_timer = [],
       host_D_T = mat_zero 1 2, host_D = mat_zero 2 1,
       host_M_invD = \<lparr> nrows = 2, ncols = 1, entry = (\<lambda>i j. 1) \<rparr>,
       host_M_inv = \<lparr> nrows = 2, ncols = 2,
                      entry = (\<lambda>i j. if i = j then (if i = 0 then 1 / 2 else 1 / 4) else 0) \<rparr>,
       host_M_invk = [1, 1], host_E = [], host_b = [], host_R_full = [],
       host_gamma = [3], host_hf = [2, 4], host_v = [1, 2] \<rparr>"

text \<open>Four containers without constraints, whose methods change nothing.\<close>

definition idle_container :: constraint_container where
  "idle_container =
     \<lparr> GenerateSparsity = (\<lambda>dm. dm), Build_D = (\<lambda>dm. dm), Build_E = (\<lambda>dm. dm),
       Build_b = (\<lambda>dm. dm), GetNumConstraints = 0, GetNumNonZeros = 0 \<rparr>"

definition idle_containers :: constraint_containers where
  "idle_containers =
     \<lparr> rigid_rigid = idle_container, bilateral = idle_container,
       node_container = idle_container, fea_container = idle_container \<rparr>"

section \<open>Theorems\<close>

subsection \<open>Projection onto the box\<close>

text \<open>
  Claim C10. Once the bounds have been set through \<^verbatim>\<open>SetBoxedMinMax\<close> (whose assertion
  demands \<open>mmin \<le> mmax\<close>), \<^verbatim>\<open>Project\<close> maps every multiplier value \<open>v\<close> into the box:
  the projected multiplier lies between the two bounds, the bounds themselves are not
  touched, a value already inside the box is left as it is, and projecting a second time
  changes nothing.
\<close>

theorem Project_into_box:
  assumes "SetBoxedMinMax mmin mmax c0 = Some c"
  shows "l_min c = mmin \<and> l_max c = mmax
       \<and> l_min (Project (c\<lparr>l_i := v\<rparr>)) = mmin \<and> l_max (Project (c\<lparr>l_i := v\<rparr>)) = mmax
       \<and> mmin \<le> l_i (Project (c\<lparr>l_i := v\<rparr>)) \<and> l_i (Project (c\<lparr>l_i := v\<rparr>)) \<le> mmax
       \<and> (mmin \<le> v \<and> v \<le> mmax \<longrightarrow> Project (c\<lparr>l_i := v\<rparr>) = c\<lparr>l_i := v\<rparr>)
       \<and> Project (Project (c\<lparr>l_i := v\<rparr>)) = Project (c\<lparr>l_i := v\<rparr>)"
proof -
  from assms have le: "mmin \<le> mmax" and c: "c = c0\<lparr>l_min := mmin, l_max := mmax\<rparr>"
    by (auto simp: SetBoxedMinMax_def split: if_splits)
  show ?thesis
    using le by (simp add: c Project_def Let_def)
qed

theorem Project_into_box_witness:
  "SetBoxedMinMax 0 5 (ChConstraintTwoGenericBoxed_default 0)
     = Some \<lparr> l_i = 0, b_i = 0, Cq_a = [], Cq_b = [], l_min = 0, l_max = 5 \<rparr>
   \<and> l_i (Project (\<lparr> l_i = 7, b_i = 0, Cq_a = [], Cq_b = [], l_min = 0, l_max = 5 \<rparr>)) = 5
   \<and> l_i (Project (\<lparr> l_i = -3, b_i = 0, Cq_a = [], Cq_b = [], l_min = 0, l_max = 5 \<rparr>)) = 0
   \<and> Project (\<lparr> l_i = 2, b_i = 0, Cq_a = [], Cq_b = [], l_min = 0, l_max = 5 \<rparr>)
       = \<lparr> l_i = 2, b_i = 0, Cq_a = [], Cq_b = [], l_min = 0, l_max = 5 \<rparr>"
proof -
  have h: "SetBoxedMinMax 0 5 (ChConstraintTwoGenericBoxed_default 0)
             = Some \<lparr> l_i = 0, b_i = 0, Cq_a = [], Cq_b = [], l_min = 0, l_max = 5 \<rparr>"
    by (simp add: SetBoxedMinMax_def ChConstraintTwoGenericBoxed_default_def)
  show ?thesis
    using h Project_into_box [OF h, of 7] Project_into_box [OF h, of "-3"]
      Project_into_box [OF h, of 2]
    by (simp add: Project_def Let_def)
qed

subsection \<open>Body flags\<close>

lemma BodyFlag_bit_less: "BodyFlag_bit f < 32"
  by (cases f) simp_all

lemma BodyFlag_bit_inj: "BodyFlag_bit f = BodyFlag_bit g \<longleftrightarrow> f = g"
  by (cases f; cases g) simp_all

lemma BFlagGet_bit: "BFlagGet m b = bit (bflags b) (BodyFlag_bit m)"
  unfolding BFlagGet_def BodyFlag_mask_def
  by (simp add: and_exp_eq_0_iff_not_bit)

lemma BFlagGet_BFlagSet:
  "BFlagGet g (BFlagSet f s b) = (if f = g then s else BFlagGet g b)"
  using BodyFlag_bit_less[of g] BodyFlag_bit_less[of f]
  by (auto simp add: BFlagGet_bit BFlagSet_def BodyFlag_mask_def bit_simps BodyFlag_bit_inj)

lemma BFlagSet_fields:
  "fixed (BFlagSet f s b) = fixed b"
  "PosDer (BFlagSet f s b) = PosDer b"
  "RotDer (BFlagSet f s b) = RotDer b"
  "ChTime (BFlagSet f s b) = ChTime b"
  "sleep_time (BFlagSet f s b) = sleep_time b"
  "sleep_starttime (BFlagSet f s b) = sleep_starttime b"
  "sleep_minspeed (BFlagSet f s b) = sleep_minspeed b"
  "sleep_minwvel (BFlagSet f s b) = sleep_minwvel b"
  by (simp_all add: BFlagSet_def)

lemma BFlagGet_sleep_starttime_update:
  "BFlagGet g (b\<lparr>sleep_starttime := t\<rparr>) = BFlagGet g b"
  by (simp add: BFlagGet_def)

lemma BFlagGet_resting_body:
  "BFlagGet g (resting_body t) = (g = USESLEEPING)"
  using BodyFlag_bit_less[of g]
  by (auto simp add: BFlagGet_bit resting_body_def BodyFlag_mask_def bit_simps BodyFlag_bit_inj
        simp del: BodyFlag_bit.simps)

subsection \<open>The sleeping heuristic\<close>

lemma floor_log2_between:
  assumes "2 \<le> a" and "a < 4"
  shows "\<lfloor>log 2 \<bar>a\<bar>\<rfloor> = 1"
proof -
  have a: "\<bar>a\<bar> = a" "0 < a"
    using assms by simp_all
  have "1 \<le> log 2 a"
    using assms a by (subst le_log_iff) simp_all
  moreover have "log 2 a < 2"
    using assms a by (subst log_less_iff) simp_all
  ultimately show ?thesis
    by (simp add: a floor_eq_iff)
qed

lemma float_of_double_between:
  assumes "2 \<le> a" and "a < 4"
  shows "float_of_double a =
     (let q = a * 4194304; f = \<lfloor>q\<rfloor>;
          n = (if q - of_int f < 1 / 2 then f
               else if 1 / 2 < q - of_int f then f + 1
               else if even f then f else f + 1)
      in of_int n / 4194304)"
proof -
  have e: "max \<lfloor>log 2 \<bar>a\<bar>\<rfloor> (- 126) = 1"
    using floor_log2_between [OF assms] by simp
  have ulp: "2 powr (of_int (1 - 23)) = 1 / (4194304 :: real)"
    by (simp add: powr_minus divide_simps)
  have q: "a / (1 / 4194304) = a * 4194304"
    by simp
  have nz: "(a = 0) = False"
    using assms by simp
  show ?thesis
    unfolding float_of_double_def Let_def e ulp q nz
    by simp
qed

lemma float_of_double_2: "float_of_double 2 = 2"
  by (subst float_of_double_between) simp_all

lemma float_of_double_21_10: "float_of_double (21 / 10) = 4404019 / 2097152"
  by (subst float_of_double_between) (simp_all add: Let_def)

text \<open>
  Claim C7, as the code has it. One call of \<^verbatim>\<open>TrySleeping\<close> returns true exactly when
  sleeping is allowed, the body is active, both speed measures (the maximum norm of the
  linear velocity, and twice the maximum norm of the quaternion derivative) are below
  their thresholds, and the current time exceeds the stored timer start by strictly more
  than \<open>sleep_time\<close>; the could-sleep flag after the call equals the returned value (it is
  cleared first), and no other flag changes. When sleeping is allowed, the body is active
  and one of the speeds is at or above its threshold, the stored timer start becomes
  \<^verbatim>\<open>float(GetChTime())\<close>, the current time narrowed to single precision; in every other case
  the timer keeps its value.
\<close>

theorem TrySleeping_marks_candidate:
  "fst (TrySleeping b) =
     (GetUseSleeping b \<and> IsActive b
      \<and> LengthInf (PosDer b) < sleep_minspeed b \<and> 2 * QLengthInf (RotDer b) < sleep_minwvel b
      \<and> sleep_time b < ChTime b - sleep_starttime b)
   \<and> BFlagGet COULDSLEEP (snd (TrySleeping b)) = fst (TrySleeping b)
   \<and> (\<forall>f. f \<noteq> COULDSLEEP \<longrightarrow> BFlagGet f (snd (TrySleeping b)) = BFlagGet f b)
   \<and> sleep_starttime (snd (TrySleeping b)) =
       (if GetUseSleeping b \<and> IsActive b
           \<and> \<not> (LengthInf (PosDer b) < sleep_minspeed b
                \<and> 2 * QLengthInf (RotDer b) < sleep_minwvel b)
        then float_of_double (ChTime b) else sleep_starttime b)"
  by (auto simp add: TrySleeping_def Let_def GetUseSleeping_def IsActive_def
        BFlagGet_BFlagSet BFlagSet_fields BFlagGet_sleep_starttime_update)

theorem TrySleeping_marks_candidate_witness:
  "fst (TrySleeping (resting_body 2))
   \<and> BFlagGet COULDSLEEP (snd (TrySleeping (resting_body 2)))
   \<and> BFlagGet USESLEEPING (snd (TrySleeping (resting_body 2)))
   \<and> sleep_starttime (snd (TrySleeping (resting_body 2))) = 0
   \<and> \<not> fst (TrySleeping ((resting_body (21 / 10))\<lparr>PosDer := ChVector3d 1 0 0\<rparr>))
   \<and> sleep_starttime (snd (TrySleeping ((resting_body (21 / 10))\<lparr>PosDer := ChVector3d 1 0 0\<rparr>)))
       = 4404019 / 2097152"
proof -
  let ?b = "resting_body 2"
  let ?m = "(resting_body (21 / 10))\<lparr>PosDer := ChVector3d 1 0 0\<rparr>"
  have flags: "GetUseSleeping ?b" "IsActive ?b" "BFlagGet USESLEEPING ?b"
    using BFlagGet_resting_body[of USESLEEPING 2] BFlagGet_resting_body[of SLEEPING 2]
    by (simp_all add: GetUseSleeping_def IsActive_def)
       (simp_all add: resting_body_def)
  have flags_m: "GetUseSleeping ?m" "IsActive ?m"
    using BFlagGet_resting_body[of USESLEEPING "21 / 10"]
      BFlagGet_resting_body[of SLEEPING "21 / 10"]
    by (simp_all add: GetUseSleeping_def IsActive_def BFlagGet_def)
       (simp_all add: resting_body_def)
  have vals: "LengthInf (PosDer ?b) < sleep_minspeed ?b"
    "2 * QLengthInf (RotDer ?b) < sleep_minwvel ?b"
    "sleep_time ?b < ChTime ?b - sleep_starttime ?b" "sleep_starttime ?b = 0"
    by (simp_all add: resting_body_def LengthInf_def QLengthInf_def VNULL_def QNULL_def)
  have vals_m: "\<not> LengthInf (PosDer ?m) < sleep_minspeed ?m"
    "ChTime (resting_body (21 / 10)) = 21 / 10"
    by (simp_all add: resting_body_def LengthInf_def)
  have fast: "\<not> fst (TrySleeping ?m)
      \<and> sleep_starttime (snd (TrySleeping ?m)) = 4404019 / 2097152"
    using TrySleeping_marks_candidate [of ?m] flags_m vals_m(1)
    by (simp add: vals_m(2) float_of_double_21_10)
  have slow: "fst (TrySleeping ?b) \<and> BFlagGet COULDSLEEP (snd (TrySleeping ?b))
      \<and> BFlagGet USESLEEPING (snd (TrySleeping ?b))
      \<and> sleep_starttime (snd (TrySleeping ?b)) = 0"
    using TrySleeping_marks_candidate [of ?b] flags vals by simp
  show ?thesis
    using fast slow by simp
qed

text \<open>
  The claim as the spec words it fails at the boundary: a body whose stored timer start
  lies exactly \<open>sleep_time\<close> before the current time, and which is below both thresholds,
  is not marked, because the comparison is strict.
\<close>

theorem TrySleeping_exact_duration_counterexample:
  "GetUseSleeping (resting_body 1) \<and> IsActive (resting_body 1)
   \<and> LengthInf (PosDer (resting_body 1)) < sleep_minspeed (resting_body 1)
   \<and> 2 * QLengthInf (RotDer (resting_body 1)) < sleep_minwvel (resting_body 1)
   \<and> ChTime (resting_body 1) - sleep_starttime (resting_body 1) = sleep_time (resting_body 1)
   \<and> \<not> fst (TrySleeping (resting_body 1))
   \<and> \<not> BFlagGet COULDSLEEP (snd (TrySleeping (resting_body 1)))"
proof -
  have flags: "GetUseSleeping (resting_body 1)" "IsActive (resting_body 1)"
    using BFlagGet_resting_body[of USESLEEPING 1] BFlagGet_resting_body[of SLEEPING 1]
    by (simp_all add: GetUseSleeping_def IsActive_def)
       (simp_all add: resting_body_def)
  have vals: "LengthInf (PosDer (resting_body 1)) = 0" "QLengthInf (RotDer (resting_body 1)) = 0"
    "sleep_minspeed (resting_body 1) = 1 / 10" "sleep_minwvel (resting_body 1) = 1 / 25"
    "sleep_time (resting_body 1) = 1" "ChTime (resting_body 1) = 1"
    "sleep_starttime (resting_body 1) = 0"
    by (simp_all add: resting_body_def LengthInf_def QLengthInf_def VNULL_def QNULL_def)
  have run: "TrySleeping (resting_body 1) = (False, BFlagSet COULDSLEEP False (resting_body 1))"
    using flags vals
    by (simp add: TrySleeping_def Let_def GetUseSleeping_def IsActive_def
          BFlagGet_BFlagSet BFlagSet_fields)
  show ?thesis
    using flags vals by (simp add: run BFlagGet_BFlagSet)
qed

text \<open>
  The duration is measured from the stored, narrowed timer start, not from the time of
  the reset: a body that moves at time 2.1 has its timer set to \<open>float(2.1)\<close>, a little
  below 2.1, and when it rests at time 3.1, exactly \<open>sleep_time = 1\<close> after the reset, the
  call marks it.
\<close>

lemma TrySleeping_returns:
  "fst (TrySleeping b) =
     (GetUseSleeping b \<and> IsActive b
      \<and> LengthInf (PosDer b) < sleep_minspeed b \<and> 2 * QLengthInf (RotDer b) < sleep_minwvel b
      \<and> sleep_time b < ChTime b - sleep_starttime b)"
  by (auto simp add: TrySleeping_def Let_def GetUseSleeping_def IsActive_def
        BFlagGet_BFlagSet BFlagSet_fields)

lemma TrySleeping_keeps:
  "fixed (snd (TrySleeping b)) = fixed b"
  "RotDer (snd (TrySleeping b)) = RotDer b"
  "sleep_time (snd (TrySleeping b)) = sleep_time b"
  "sleep_minspeed (snd (TrySleeping b)) = sleep_minspeed b"
  "sleep_minwvel (snd (TrySleeping b)) = sleep_minwvel b"
  "f \<noteq> COULDSLEEP \<Longrightarrow> BFlagGet f (snd (TrySleeping b)) = BFlagGet f b"
  by (simp_all add: TrySleeping_def Let_def BFlagSet_fields BFlagGet_BFlagSet
        BFlagGet_sleep_starttime_update)

lemma TrySleeping_resets_timer:
  assumes "GetUseSleeping b" and "IsActive b" and "\<not> LengthInf (PosDer b) < sleep_minspeed b"
  shows "sleep_starttime (snd (TrySleeping b)) = float_of_double (ChTime b)"
  using assms
  by (simp add: TrySleeping_def Let_def GetUseSleeping_def IsActive_def
        BFlagGet_BFlagSet BFlagSet_fields)

lemma TrySleeping_after_narrowed_reset:
  "fst (TrySleeping
     ((snd (TrySleeping ((resting_body (21 / 10))\<lparr>PosDer := ChVector3d 1 0 0\<rparr>)))
        \<lparr>PosDer := VNULL, ChTime := 31 / 10\<rparr>))"
proof -
  let ?m = "(resting_body (21 / 10))\<lparr>PosDer := ChVector3d 1 0 0\<rparr>"
  let ?r = "snd (TrySleeping ?m)"
  let ?c = "?r\<lparr>PosDer := VNULL, ChTime := 31 / 10\<rparr>"
  have flags_m: "BFlagGet USESLEEPING ?m" "\<not> BFlagGet SLEEPING ?m"
    using BFlagGet_resting_body[of USESLEEPING "21 / 10"]
      BFlagGet_resting_body[of SLEEPING "21 / 10"]
    by (simp_all add: BFlagGet_def)
  have fields_m: "fixed ?m = False" "sleep_time ?m = 1" "sleep_minspeed ?m = 1 / 10"
    "sleep_minwvel ?m = 1 / 25" "RotDer ?m = QNULL" "ChTime ?m = 21 / 10"
    "\<not> LengthInf (PosDer ?m) < sleep_minspeed ?m"
    by (simp_all add: resting_body_def LengthInf_def)
  have use_m: "GetUseSleeping ?m" "IsActive ?m"
    using flags_m fields_m(1) by (simp_all add: GetUseSleeping_def IsActive_def)
  have timer: "sleep_starttime ?r = 4404019 / 2097152"
    using TrySleeping_resets_timer [OF use_m fields_m(7)]
    by (simp only: fields_m(6) float_of_double_21_10)
  have flags_r: "BFlagGet USESLEEPING ?r" "\<not> BFlagGet SLEEPING ?r"
    using flags_m by (simp_all add: TrySleeping_keeps(6))
  have use_c: "GetUseSleeping ?c" "IsActive ?c"
    using flags_r fields_m(1)
    by (simp_all add: GetUseSleeping_def IsActive_def BFlagGet_def TrySleeping_keeps(1))
  have fields_c: "LengthInf (PosDer ?c) < sleep_minspeed ?c"
    "2 * QLengthInf (RotDer ?c) < sleep_minwvel ?c"
    "sleep_time ?c < ChTime ?c - sleep_starttime ?c"
    by (simp_all add: TrySleeping_keeps fields_m timer LengthInf_def QLengthInf_def
          VNULL_def QNULL_def)
  show ?thesis
    unfolding TrySleeping_returns
    using use_c fields_c by (intro conjI)
qed

subsection \<open>Segments of state vectors\<close>

lemma length_set_segment3 [simp]: "length (set_segment3 v off a) = length v"
  by (simp add: set_segment3_def)

lemma length_set_segment4 [simp]: "length (set_segment4 v off q) = length v"
  by (simp add: set_segment4_def)

lemma length_add_segment3 [simp]: "length (add_segment3 v off a) = length v"
  by (simp add: add_segment3_def)

lemma nth_set_segment3:
  "off + 3 \<le> length v \<Longrightarrow>
   set_segment3 v off a ! i =
     (if i = off then vx a else if i = off + 1 then vy a else if i = off + 2 then vz a else v ! i)"
  by (simp add: set_segment3_def nth_list_update)

lemma nth_set_segment4:
  "off + 4 \<le> length v \<Longrightarrow>
   set_segment4 v off q ! i =
     (if i = off then e0 q else if i = off + 1 then e1 q else if i = off + 2 then e2 q
      else if i = off + 3 then e3 q else v ! i)"
  by (simp add: set_segment4_def nth_list_update)

lemma nth_add_segment3:
  "off + 3 \<le> length v \<Longrightarrow>
   add_segment3 v off a ! i =
     (if i = off then v ! off + vx a else if i = off + 1 then v ! (off + 1) + vy a
      else if i = off + 2 then v ! (off + 2) + vz a else v ! i)"
  by (simp add: add_segment3_def nth_set_segment3 Vadd_def segment3_def)

subsection \<open>Applied forces and the gyroscopic torque\<close>

lemma ComputeGyro_fields:
  "gyro (ComputeGyro b) = Vcross (AngVelLocal b) (MatVec (BodyInertia b) (AngVelLocal b))"
  "Xforce (ComputeGyro b) = Xforce b"
  "Xtorque (ComputeGyro b) = Xtorque b"
  "GetNoGyroTorque (ComputeGyro b) = GetNoGyroTorque b"
  by (simp_all add: ComputeGyro_def Let_def GetNoGyroTorque_def BFlagGet_def)

text \<open>
  Claim C4. With the gyroscopic term as \<^verbatim>\<open>ComputeGyro\<close> leaves it, \<^verbatim>\<open>IntLoadResidual_F\<close> adds
  \<open>c\<close> times the applied force to the three translational slots of the residual and \<open>c\<close>
  times the torque term to the three rotational slots, where the torque term is the
  applied torque minus \<open>\<omega> \<times> (I \<omega>)\<close>, and the plain applied torque exactly when the body
  is flagged "no gyroscopic torque". Nothing else in the residual changes.
\<close>

theorem IntLoadResidual_F_force_and_torque:
  assumes "off + 6 \<le> length R"
  shows "segment3 (IntLoadResidual_F off R c (ComputeGyro b)) off
           = Vadd (segment3 R off) (Vmul (Xforce b) c)
       \<and> segment3 (IntLoadResidual_F off R c (ComputeGyro b)) (off + 3)
           = Vadd (segment3 R (off + 3))
               (Vmul (if GetNoGyroTorque b then Xtorque b
                      else Vsub (Xtorque b)
                             (Vcross (AngVelLocal b) (MatVec (BodyInertia b) (AngVelLocal b)))) c)
       \<and> length (IntLoadResidual_F off R c (ComputeGyro b)) = length R
       \<and> (\<forall>i. i < off \<or> off + 6 \<le> i \<longrightarrow> IntLoadResidual_F off R c (ComputeGyro b) ! i = R ! i)"
  using assms
  by (simp add: IntLoadResidual_F_def Let_def ComputeGyro_fields nth_add_segment3
        segment3_def Vadd_def)

theorem IntLoadResidual_F_force_and_torque_witness:
  "segment3 (IntLoadResidual_F 2 [0, 0, 0, 0, 0, 0, 0, 0] 2 (ComputeGyro (spinning_body False))) 2
     = ChVector3d 2 4 6
   \<and> segment3 (IntLoadResidual_F 2 [0, 0, 0, 0, 0, 0, 0, 0] 2 (ComputeGyro (spinning_body False))) 5
     = ChVector3d 2 0 (- 2)
   \<and> segment3 (IntLoadResidual_F 2 [0, 0, 0, 0, 0, 0, 0, 0] 2 (ComputeGyro (spinning_body True))) 5
     = ChVector3d 2 0 0"
proof -
  have len: "2 + 6 \<le> length [0, 0, 0, 0, 0, 0, 0, (0::real)]" by simp
  have nogyro: "GetNoGyroTorque (spinning_body s) = s" for s
    by (simp add: spinning_body_def SetNoGyroTorque_def GetNoGyroTorque_def BFlagGet_BFlagSet)
  have fields: "Xforce (spinning_body s) = ChVector3d 1 2 3"
    "Xtorque (spinning_body s) = ChVector3d 1 0 0"
    "AngVelLocal (spinning_body s) = ChVector3d 1 1 0"
    "BodyInertia (spinning_body s) = ChMatrix33 1 0 0 0 2 0 0 0 3" for s
    by (simp_all add: spinning_body_def SetNoGyroTorque_def BFlagSet_def)
  have zeros: "segment3 [0, 0, 0, 0, 0, 0, 0, 0] 2 = ChVector3d 0 0 0"
    "segment3 [0, 0, 0, 0, 0, 0, 0, 0] 5 = ChVector3d 0 0 0"
    by (simp_all add: segment3_def)
  show ?thesis
    using IntLoadResidual_F_force_and_torque [OF len, of 2 "spinning_body False"]
          IntLoadResidual_F_force_and_torque [OF len, of 2 "spinning_body True"]
    by (simp add: nogyro fields zeros Vadd_def Vmul_def Vsub_def Vcross_def MatVec_def)
qed

subsection \<open>Increment and decrement of the position state\<close>

lemma Qcross_conjugate_cancel:
  "Qcross (Qconjugate q) (Qcross q r) = Qscale r ((e0 q)\<^sup>2 + (e1 q)\<^sup>2 + (e2 q)\<^sup>2 + (e3 q)\<^sup>2)"
  by (cases q; cases r) (simp add: Qcross_def Qconjugate_def Qscale_def power2_eq_square algebra_simps)

lemma Qcross_conjugate_unit:
  assumes "Qlength q = 1"
  shows "Qcross (Qconjugate q) (Qcross q r) = r"
proof -
  from assms have "(e0 q)\<^sup>2 + (e1 q)\<^sup>2 + (e2 q)\<^sup>2 + (e3 q)\<^sup>2 = 1"
    by (simp add: Qlength_def)
  then show ?thesis
    by (cases r) (simp add: Qcross_conjugate_cancel Qscale_def)
qed

lemma IntStateIncrement_slots:
  assumes "off_x + 7 \<le> length x_new"
  shows "IntStateIncrement off_x x_new x off_v Dv ! off_x = x ! off_x + Dv ! off_v"
    and "IntStateIncrement off_x x_new x off_v Dv ! (off_x + 1) = x ! (off_x + 1) + Dv ! (off_v + 1)"
    and "IntStateIncrement off_x x_new x off_v Dv ! (off_x + 2) = x ! (off_x + 2) + Dv ! (off_v + 2)"
    and "segment4 (IntStateIncrement off_x x_new x off_v Dv) (off_x + 3)
           = Qcross (segment4 x (off_x + 3)) (SetFromRotVec (segment3 Dv (off_v + 3)))"
  using assms
  by (simp_all add: IntStateIncrement_def Let_def nth_set_segment4 segment4_def add.assoc)

lemma IntStateGetIncrement_slots:
  assumes "off_v + 6 \<le> length Dv"
  shows "segment3 (IntStateGetIncrement off_x x_new x off_v Dv) off_v
           = ChVector3d (x_new ! off_x - x ! off_x) (x_new ! (off_x + 1) - x ! (off_x + 1))
               (x_new ! (off_x + 2) - x ! (off_x + 2))"
    and "segment3 (IntStateGetIncrement off_x x_new x off_v Dv) (off_v + 3)
           = GetRotVec (Qcross (Qconjugate (segment4 x (off_x + 3))) (segment4 x_new (off_x + 3)))"
  using assms
  by (simp_all add: IntStateGetIncrement_def Let_def nth_set_segment3 segment3_def add.assoc)

lemma Length_x_axis: "0 \<le> a \<Longrightarrow> Length (ChVector3d a 0 0) = a"
  by (simp add: Length_def)

lemma Length_nonneg: "0 \<le> Length w"
  by (simp add: Length_def)

lemma Length_zero_iff: "Length w = 0 \<longleftrightarrow> w = ChVector3d 0 0 0"
proof -
  obtain a b c where w: "w = ChVector3d a b c"
    by (cases w)
  have "a * a + b * b + c * c = 0 \<longleftrightarrow> a = 0 \<and> b = 0 \<and> c = 0"
    by (metis add_nonneg_eq_0_iff zero_le_square mult_eq_0_iff add_nonneg_nonneg mult_zero_left
          add.right_neutral)
  then show ?thesis
    by (simp add: w Length_def)
qed

text \<open>
  The rotation vector of the exponential of \<open>w\<close> is \<open>w\<close> itself whenever the angle, the
  length of \<open>w\<close>, is below \<open>\<pi>\<close>; the zero vector is included.
\<close>

lemma GetRotVec_SetFromRotVec:
  assumes lt: "Length w < pi"
  shows "GetRotVec (SetFromRotVec w) = w"
proof (cases "Length w = 0")
  case True
  then have w: "w = ChVector3d 0 0 0"
    by (simp add: Length_zero_iff)
  have "SetFromRotVec w = QUNIT"
    using True by (simp add: SetFromRotVec_def)
  then show ?thesis
    by (simp add: GetRotVec_def QUNIT_def Length_def VNULL_def w)
next
  case False
  obtain a b c where w: "w = ChVector3d a b c"
    by (cases w)
  define t where "t = Length w"
  have tw: "Length (ChVector3d a b c) = t"
    by (simp add: t_def w)
  have t_pos: "0 < t" and t_lt: "t < pi"
    using False lt Length_nonneg [of w] by (simp_all add: t_def)
  have t_sq: "t * t = a * a + b * b + c * c"
  proof -
    have "0 \<le> a * a + b * b + c * c"
      by simp
    then show ?thesis
      by (simp add: t_def w Length_def)
  qed
  have s_pos: "0 < sin (t / 2)"
    using t_pos t_lt by (intro sin_gt_zero) simp_all
  have acs: "arccos (cos (t / 2)) = t / 2"
    using t_pos t_lt by (intro arccos_cos) simp_all
  define k where "k = sin (t / 2) / t"
  have k_pos: "0 < k"
    using s_pos t_pos by (simp add: k_def)
  have quat: "SetFromRotVec w = ChQuaterniond (cos (t / 2)) (a * k) (b * k) (c * k)"
    using t_pos by (simp add: SetFromRotVec_def Let_def w tw k_def)
  have len: "Length (ChVector3d (a * k) (b * k) (c * k)) = sin (t / 2)"
  proof -
    have "a * k * (a * k) + b * k * (b * k) + c * k * (c * k) = (k * t) * (k * t)"
      by (simp add: t_sq algebra_simps)
    moreover have "0 \<le> k * t"
      using k_pos t_pos by simp
    ultimately have "Length (ChVector3d (a * k) (b * k) (c * k)) = k * t"
      by (simp add: Length_def)
    also have "\<dots> = sin (t / 2)"
      using t_pos by (simp add: k_def)
    finally show ?thesis .
  qed
  have cancel_k: "p * k * t / sin (t / 2) = p" for p
    using s_pos t_pos by (simp add: k_def)
  show ?thesis
    unfolding quat GetRotVec_def ChQuaterniond.sel len Let_def acs
    using s_pos by (simp add: cancel_k w)
qed

text \<open>
  Claim C1, in exact arithmetic. Let the rotational part of the state \<open>x\<close> be a unit
  quaternion and let the rotational part of the increment \<open>Dv\<close> be a rotation vector of
  angle below \<open>\<pi>\<close>; the translational part is arbitrary. Then the decrement computed from
  the incremented state and the old state gives back \<open>Dv\<close>: its three translational
  entries by addition and subtraction, its three rotational entries because
  \<open>conj(q) * (q * r) = r\<close> for a unit \<open>q\<close> and the rotation vector of \<open>exp(w)\<close> is \<open>w\<close>.
\<close>

theorem IntStateGetIncrement_IntStateIncrement:
  assumes "off_x + 7 \<le> length x" and "off_x + 7 \<le> length x_new"
    and "off_v + 6 \<le> length Dv" and "off_v + 6 \<le> length Dv_out"
    and "Qlength (segment4 x (off_x + 3)) = 1"
    and "Length (segment3 Dv (off_v + 3)) < pi"
  shows "segment3 (IntStateGetIncrement off_x
                     (IntStateIncrement off_x x_new x off_v Dv) x off_v Dv_out) off_v
           = segment3 Dv off_v
       \<and> segment3 (IntStateGetIncrement off_x
                     (IntStateIncrement off_x x_new x off_v Dv) x off_v Dv_out) (off_v + 3)
           = segment3 Dv (off_v + 3)"
proof -
  let ?xn = "IntStateIncrement off_x x_new x off_v Dv"
  have tr: "segment3 (IntStateGetIncrement off_x ?xn x off_v Dv_out) off_v
              = segment3 Dv off_v"
    unfolding IntStateGetIncrement_slots(1) [OF assms(4)]
    using IntStateIncrement_slots(1-3) [OF assms(2), of x off_v Dv]
    by (simp add: segment3_def)
  have "segment3 (IntStateGetIncrement off_x ?xn x off_v Dv_out) (off_v + 3)
          = GetRotVec (Qcross (Qconjugate (segment4 x (off_x + 3)))
              (Qcross (segment4 x (off_x + 3)) (SetFromRotVec (segment3 Dv (off_v + 3)))))"
    using assms(2,4)
    by (simp add: IntStateGetIncrement_slots(2) IntStateIncrement_slots(4))
  also have "\<dots> = GetRotVec (SetFromRotVec (segment3 Dv (off_v + 3)))"
    using assms(5) by (simp add: Qcross_conjugate_unit)
  also have "\<dots> = segment3 Dv (off_v + 3)"
    using assms(6) by (rule GetRotVec_SetFromRotVec)
  finally show ?thesis
    using tr by simp
qed

theorem IntStateGetIncrement_IntStateIncrement_witness:
  "Qlength (segment4 sample_state 3) = 1
   \<and> Length (segment3 sample_increment 3) < pi
   \<and> segment3 (IntStateGetIncrement 0
        (IntStateIncrement 0 [0, 0, 0, 0, 0, 0, 0] sample_state 0 sample_increment)
        sample_state 0 [0, 0, 0, 0, 0, 0]) 0 = ChVector3d 1 1 1
   \<and> segment3 (IntStateGetIncrement 0
        (IntStateIncrement 0 [0, 0, 0, 0, 0, 0, 0] sample_state 0 sample_increment)
        sample_state 0 [0, 0, 0, 0, 0, 0]) 3 = ChVector3d (pi / 2) 0 0"
proof -
  have l1: "0 + 7 \<le> length sample_state" by (simp add: sample_state_def)
  have l2: "0 + 7 \<le> length [0, 0, 0, 0, 0, 0, (0::real)]" by simp
  have l3: "0 + 6 \<le> length sample_increment" by (simp add: sample_increment_def)
  have l4: "0 + 6 \<le> length [0, 0, 0, 0, 0, (0::real)]" by simp
  have rot: "segment3 sample_increment (0 + 3) = ChVector3d (pi / 2) 0 0"
    by (simp add: sample_increment_def segment3_def)
  have tra: "segment3 sample_increment 0 = ChVector3d 1 1 1"
    by (simp add: sample_increment_def segment3_def)
  have unit: "Qlength (segment4 sample_state (0 + 3)) = 1"
    by (simp add: sample_state_def segment4_def Qlength_def)
  have angle: "Length (segment3 sample_increment (0 + 3)) < pi"
    unfolding rot by (simp add: Length_x_axis)
  show ?thesis
    using IntStateGetIncrement_IntStateIncrement [OF l1 l2 l3 l4 unit angle] unit angle rot tra
    by simp
qed

subsection \<open>The angle motor\<close>

lemma ramp_motor_violation:
  "GetMotorAngle (ramp_motor a t) - GetVal (f_rot (ramp_motor a t)) (GetChTime (ramp_motor a t))
     - rot_offset (ramp_motor a t) = a - t"
  by (simp add: ramp_motor_def GetMotorAngle_def GetPos_def GetChTime_def ChFunctionRamp_def)

text \<open>
  Claim C2, as the code has it. \<^verbatim>\<open>IntLoadConstraint_C\<close> adds to entry \<open>off_L\<close> of \<open>Qc\<close> the
  scaled violation \<open>c * C\<close>, with \<open>C\<close> = motor angle - \<open>f(t)\<close> - offset, clamped as a whole to
  \<open>[-recovery_clamp, +recovery_clamp]\<close> when \<open>do_clamp\<close> is set and unclamped otherwise; the
  clamp applies to the product \<open>c * C\<close>, not to \<open>C\<close> before scaling. No other entry changes.
\<close>

theorem IntLoadConstraint_C_clamps_scaled_violation:
  assumes "off_L < length Qc"
  shows "IntLoadConstraint_C off_L Qc c do_clamp recovery_clamp m ! off_L
           = Qc ! off_L
             + (if do_clamp
                then min (max (c * (GetMotorAngle m - GetVal (f_rot m) (GetChTime m) - rot_offset m))
                            (- recovery_clamp)) recovery_clamp
                else c * (GetMotorAngle m - GetVal (f_rot m) (GetChTime m) - rot_offset m))
       \<and> length (IntLoadConstraint_C off_L Qc c do_clamp recovery_clamp m) = length Qc
       \<and> (\<forall>i. i \<noteq> off_L \<longrightarrow> IntLoadConstraint_C off_L Qc c do_clamp recovery_clamp m ! i = Qc ! i)"
  using assms by (simp add: IntLoadConstraint_C_def Let_def)

theorem IntLoadConstraint_C_clamps_scaled_violation_witness:
  "IntLoadConstraint_C 2 [0, 0, 10] 2 True (3 / 2) (ramp_motor 1 0) ! 2 = 10 + 3 / 2
   \<and> IntLoadConstraint_C 2 [0, 0, 10] 2 False (3 / 2) (ramp_motor 1 0) ! 2 = 10 + 2
   \<and> IntLoadConstraint_C 2 [0, 0, 10] (- 2) True (3 / 2) (ramp_motor 1 0) ! 2 = 10 - 3 / 2"
proof -
  have len: "2 < length [0, 0, (10::real)]" by simp
  show ?thesis
    using IntLoadConstraint_C_clamps_scaled_violation [OF len, of 2 True "3 / 2" "ramp_motor 1 0"]
      IntLoadConstraint_C_clamps_scaled_violation [OF len, of 2 False "3 / 2" "ramp_motor 1 0"]
      IntLoadConstraint_C_clamps_scaled_violation [OF len, of "- 2" True "3 / 2" "ramp_motor 1 0"]
    by (simp add: ramp_motor_violation)
qed

text \<open>
  The claim as the spec words it (\<open>c\<close> times the clamped violation) fails: with \<open>C = 1\<close>,
  \<open>c = 2\<close> and \<open>recovery_clamp = 3/2\<close> the violation itself is inside the clamp, so the spec's
  value is \<open>2\<close>, while \<^verbatim>\<open>IntLoadConstraint_C\<close> loads \<open>3/2\<close>. \<^verbatim>\<open>ConstraintsBiLoad_C\<close> on the same
  motor loads \<open>4\<close>, with and without \<open>do_clamp\<close>.
\<close>

theorem IntLoadConstraint_C_counterexample:
  "GetMotorAngle (ramp_motor 1 0) - GetVal (f_rot (ramp_motor 1 0)) (GetChTime (ramp_motor 1 0))
     - rot_offset (ramp_motor 1 0) = 1
   \<and> 2 * min (max (1::real) (- (3 / 2))) (3 / 2) = 2
   \<and> IntLoadConstraint_C 0 [0] 2 True (3 / 2) (ramp_motor 1 0) ! 0 = 3 / 2
   \<and> b_i (constraint (ConstraintsBiLoad_C 2 (3 / 2) True (ConstraintsBiReset (ramp_motor 1 0)))) = 4
   \<and> b_i (constraint (ConstraintsBiLoad_C 2 (3 / 2) False (ConstraintsBiReset (ramp_motor 1 0)))) = 4"
proof -
  have r: "GetMotorAngle (ConstraintsBiReset (ramp_motor 1 0))
             - GetVal (f_rot (ConstraintsBiReset (ramp_motor 1 0)))
                 (GetChTime (ConstraintsBiReset (ramp_motor 1 0)))
             - rot_offset (ConstraintsBiReset (ramp_motor 1 0)) = 1"
    using ramp_motor_violation [of 1 0]
    by (simp add: ConstraintsBiReset_def GetMotorAngle_def GetChTime_def)
  show ?thesis
    using ramp_motor_violation [of 1 0] r
    by (simp add: IntLoadConstraint_C_def ConstraintsBiLoad_C_def Let_def ConstraintsBiReset_def)
qed

text \<open>
  Claim C3. After \<^verbatim>\<open>Update(t)\<close> the observable \<^verbatim>\<open>GetConstraintViolation()\<close> is
  \<open>\<theta>_A - \<theta>_B - f(t) - offset\<close>; \<^verbatim>\<open>ConstraintsLoadJacobians\<close> writes \<open>+1\<close> and \<open>-1\<close> into the
  Jacobian entries of the two shafts; and \<^verbatim>\<open>IntLoadConstraint_Ct\<close> adds \<open>c * Ct\<close> with
  \<open>Ct = - f'(t)\<close> to entry \<open>off_L\<close> of the residual bias, leaving the other entries alone.
\<close>

theorem motor_violation_jacobian_Ct:
  assumes "Cq_a (constraint m) \<noteq> []" and "Cq_b (constraint m) \<noteq> []" and "off_L < length Qc"
  shows "GetConstraintViolation (Update t m)
           = GetPos (shaft1 m) - GetPos (shaft2 m) - GetVal (f_rot m) t - rot_offset m
       \<and> GetChTime (Update t m) = t
       \<and> Cq_a (constraint (ConstraintsLoadJacobians (Update t m))) ! 0 = 1
       \<and> Cq_b (constraint (ConstraintsLoadJacobians (Update t m))) ! 0 = - 1
       \<and> IntLoadConstraint_Ct off_L Qc c (Update t m) ! off_L
           = Qc ! off_L + c * (- GetDer (f_rot m) t)
       \<and> (\<forall>i. i \<noteq> off_L \<longrightarrow> IntLoadConstraint_Ct off_L Qc c (Update t m) ! i = Qc ! i)"
  using assms
  by (simp add: GetConstraintViolation_def Update_def ChShaftsMotorBase_Update_def Let_def
        GetMotorAngle_def GetChTime_def ConstraintsLoadJacobians_def IntLoadConstraint_Ct_def)

theorem motor_violation_jacobian_Ct_witness:
  "GetConstraintViolation (Update 3 (ramp_motor 5 0)) = 2
   \<and> Cq_a (constraint (ConstraintsLoadJacobians (Update 3 (ramp_motor 5 0)))) ! 0 = 1
   \<and> Cq_b (constraint (ConstraintsLoadJacobians (Update 3 (ramp_motor 5 0)))) ! 0 = - 1
   \<and> IntLoadConstraint_Ct 0 [7] 2 (Update 3 (ramp_motor 5 0)) ! 0 = 5"
proof -
  have a: "Cq_a (constraint (ramp_motor 5 0)) \<noteq> []" by (simp add: ramp_motor_def)
  have b: "Cq_b (constraint (ramp_motor 5 0)) \<noteq> []" by (simp add: ramp_motor_def)
  have q: "0 < length [7::real]" by simp
  have vals: "GetPos (shaft1 (ramp_motor 5 0)) = 5" "GetPos (shaft2 (ramp_motor 5 0)) = 0"
    "GetVal (f_rot (ramp_motor 5 0)) 3 = 3" "GetDer (f_rot (ramp_motor 5 0)) 3 = 1"
    "rot_offset (ramp_motor 5 0) = 0"
    by (simp_all add: ramp_motor_def GetPos_def ChFunctionRamp_def)
  show ?thesis
    using motor_violation_jacobian_Ct [OF a b q, of 3 2] vals
    by simp
qed

subsection \<open>Bond forces of the bulk-elastic matter\<close>

lemma Vmul_contribution_balance:
  "Vmul (bond_contribution_A m a b) (peri_volume a)
     = Vneg (Vmul (bond_contribution_B m a b) (peri_volume b))"
  by (simp add: bond_contribution_A_def bond_contribution_B_def Vmul_def Vneg_def
        Vmul_componentwise_def)

text \<open>
  Claim C5, as the code has it. For an unbroken bond the loop body adds
  \<open>vdir * force_val * volume(B)\<close> to \<open>F_peridyn\<close> of node A and
  \<open>- vdir * force_val * volume(A)\<close> to \<open>F_peridyn\<close> of node B, the viscous part included in
  \<open>force_val\<close>, and touches the force of no other node. The two contributions are opposite
  in direction and balance once each is weighted by the volume of its own node; they
  are equal and opposite when the two store have the same volume.
\<close>

theorem ComputeForces_bound_contributions:
  assumes "\<not> broken mbound" and "nodeA mbound \<noteq> nodeB mbound"
  shows "F_peridyn (snd (ComputeForces_bound m mbound store) (nodeA mbound))
           = Vadd (F_peridyn (store (nodeA mbound)))
               (bond_contribution_A m (store (nodeA mbound)) (store (nodeB mbound)))
       \<and> F_peridyn (snd (ComputeForces_bound m mbound store) (nodeB mbound))
           = Vadd (F_peridyn (store (nodeB mbound)))
               (bond_contribution_B m (store (nodeA mbound)) (store (nodeB mbound)))
       \<and> (\<forall>n. n \<noteq> nodeA mbound \<and> n \<noteq> nodeB mbound \<longrightarrow>
              F_peridyn (snd (ComputeForces_bound m mbound store) n) = F_peridyn (store n))
       \<and> Vmul (bond_contribution_A m (store (nodeA mbound)) (store (nodeB mbound)))
              (peri_volume (store (nodeA mbound)))
           = Vneg (Vmul (bond_contribution_B m (store (nodeA mbound)) (store (nodeB mbound)))
                     (peri_volume (store (nodeB mbound))))
       \<and> (peri_volume (store (nodeA mbound)) = peri_volume (store (nodeB mbound)) \<longrightarrow>
              bond_contribution_A m (store (nodeA mbound)) (store (nodeB mbound))
                = Vneg (bond_contribution_B m (store (nodeA mbound)) (store (nodeB mbound))))"
proof -
  have equal_volumes:
    "peri_volume a = peri_volume b \<Longrightarrow> bond_contribution_A m a b = Vneg (bond_contribution_B m a b)"
    for a b
    by (simp add: bond_contribution_A_def bond_contribution_B_def Vmul_def Vneg_def
          Vmul_componentwise_def)
  show ?thesis
    using assms
    by (simp add: ComputeForces_bound_def Let_def Vmul_contribution_balance equal_volumes)
qed

lemma peri_bond_values:
  "bond_vdir peri_node_a peri_node_b = ChVector3d 1 0 0"
  "bond_stretch peri_node_a peri_node_b = 1"
  "bond_force_val ChMatterPeriBulkElastic_default peri_node_a peri_node_b
     = ChVector3d (900 / pi + 5) (900 / pi + 5) (900 / pi + 5)"
proof -
  have len2: "Length (ChVector3d 2 0 0) = 2" and len1: "Length (ChVector3d 1 0 0) = 1"
    by (simp_all add: Length_x_axis)
  show vdir: "bond_vdir peri_node_a peri_node_b = ChVector3d 1 0 0"
    by (simp add: bond_vdir_def peri_node_a_def peri_node_b_def Vsub_def GetNormalized_def
          len2 Vmul_def)
  show stretch: "bond_stretch peri_node_a peri_node_b = 1"
    by (simp add: bond_stretch_def peri_node_a_def peri_node_b_def Vsub_def Let_def len1 len2)
  show "bond_force_val ChMatterPeriBulkElastic_default peri_node_a peri_node_b
     = ChVector3d (900 / pi + 5) (900 / pi + 5) (900 / pi + 5)"
    unfolding bond_force_val_def Let_def vdir stretch
    by (simp add: ChMatterPeriBulkElastic_default_def peri_node_a_def peri_node_b_def
          Vsub_def Vdot_def Vadd_def ChVector_of_scalar_def)
qed

theorem ComputeForces_bound_contributions_witness:
  "F_peridyn (snd (ComputeForces_bound ChMatterPeriBulkElastic_default
       \<lparr> nodeA = 0, nodeB = 1, broken = False, F_per_bond = 0 \<rparr>
       ((\<lambda>n. peri_node_a)(1 := peri_node_b))) 0) = ChVector3d (2 * (900 / pi + 5)) 0 0
   \<and> F_peridyn (snd (ComputeForces_bound ChMatterPeriBulkElastic_default
       \<lparr> nodeA = 0, nodeB = 1, broken = False, F_per_bond = 0 \<rparr>
       ((\<lambda>n. peri_node_a)(1 := peri_node_b))) 1) = ChVector3d (- (900 / pi + 5)) 0 0"
proof -
  have h1: "\<not> broken \<lparr> nodeA = 0, nodeB = 1, broken = False, F_per_bond = 0 \<rparr>" by simp
  have h2: "nodeA \<lparr> nodeA = 0, nodeB = 1, broken = False, F_per_bond = 0 \<rparr>
              \<noteq> nodeB \<lparr> nodeA = 0, nodeB = 1, broken = False, F_per_bond = 0 \<rparr>" by simp
  have F0: "F_peridyn peri_node_a = ChVector3d 0 0 0" "F_peridyn peri_node_b = ChVector3d 0 0 0"
    "peri_volume peri_node_a = 1" "peri_volume peri_node_b = 2"
    by (simp_all add: peri_node_a_def peri_node_b_def)
  show ?thesis
    using ComputeForces_bound_contributions
            [OF h1 h2, of ChMatterPeriBulkElastic_default "(\<lambda>n. peri_node_a)(1 := peri_node_b)"]
    by (simp add: bond_contribution_A_def bond_contribution_B_def peri_bond_values F0
          Vadd_def Vmul_def Vneg_def Vmul_componentwise_def)
qed

text \<open>
  The claim as the spec words it fails when the two store differ in volume: with volumes
  1 and 2 node A receives twice the force that node B receives.
\<close>

theorem ComputeForces_bound_counterexample:
  "bond_contribution_A ChMatterPeriBulkElastic_default peri_node_a peri_node_b
     = ChVector3d (2 * (900 / pi + 5)) 0 0
   \<and> bond_contribution_B ChMatterPeriBulkElastic_default peri_node_a peri_node_b
     = ChVector3d (- (900 / pi + 5)) 0 0
   \<and> bond_contribution_A ChMatterPeriBulkElastic_default peri_node_a peri_node_b
     \<noteq> Vneg (bond_contribution_B ChMatterPeriBulkElastic_default peri_node_a peri_node_b)"
proof -
  have F0: "peri_volume peri_node_a = 1" "peri_volume peri_node_b = 2"
    by (simp_all add: peri_node_a_def peri_node_b_def)
  have pos: "0 < 900 / pi + (5::real)"
    by (simp add: add_pos_pos)
  show ?thesis
    using pos
    by (simp add: bond_contribution_A_def bond_contribution_B_def peri_bond_values F0
          Vmul_def Vneg_def Vmul_componentwise_def)
qed

subsection \<open>The per-node phase of the continuum force evaluation\<close>

lemma Minverse_left:
  assumes "determinant A \<noteq> 0"
  shows "Mmul (Minverse A) A = ChMatrix33 1 0 0 0 1 0 0 0 1"
proof -
  obtain a b c d e f g h i where A: "A = ChMatrix33 a b c d e f g h i"
    by (cases A)
  define D where "D = a * (e * i - f * h) - b * (d * i - f * g) + c * (d * h - e * g)"
  from assms have d0: "D \<noteq> 0"
    by (simp add: A determinant_def D_def)
  have comb: "p / D * u + q / D * v + r / D * w = (p * u + q * v + r * w) / D" for p q r u v w
    by (simp add: add_divide_distrib)
  have inv: "Minverse A = ChMatrix33
           ((e * i - f * h) / D) ((c * h - b * i) / D) ((b * f - c * e) / D)
           ((f * g - d * i) / D) ((a * i - c * g) / D) ((c * d - a * f) / D)
           ((d * h - e * g) / D) ((b * g - a * h) / D) ((a * e - b * d) / D)"
    by (simp add: A Minverse_def determinant_def D_def Let_def)
  have num:
    "(e * i - f * h) * a + (c * h - b * i) * d + (b * f - c * e) * g = D"
    "(e * i - f * h) * b + (c * h - b * i) * e + (b * f - c * e) * h = 0"
    "(e * i - f * h) * c + (c * h - b * i) * f + (b * f - c * e) * i = 0"
    "(f * g - d * i) * a + (a * i - c * g) * d + (c * d - a * f) * g = 0"
    "(f * g - d * i) * b + (a * i - c * g) * e + (c * d - a * f) * h = D"
    "(f * g - d * i) * c + (a * i - c * g) * f + (c * d - a * f) * i = 0"
    "(d * h - e * g) * a + (b * g - a * h) * d + (a * e - b * d) * g = 0"
    "(d * h - e * g) * b + (b * g - a * h) * e + (a * e - b * d) * h = 0"
    "(d * h - e * g) * c + (b * g - a * h) * f + (a * e - b * d) * i = D"
    by (simp_all add: D_def algebra_simps)
  show ?thesis
    unfolding inv unfolding A Mmul_def ChMatrix33.sel comb num
    using d0 by simp
qed

text \<open>
  The per-node phase on the two kinds of node. For a node whose shape tensor has a
  determinant of absolute value below 0.00003, the phase recomputes the volume, zeroes the
  shape tensor and the elastic strain and changes nothing else. For every other node the
  shape tensor is replaced by its inverse, and the elastic stress is the material's
  stress for the elastic strain minus the return-mapping flow plus the new step strain.
  In both cases the phase returns a node: there is no failure value.
\<close>

lemma node_invert_and_stress_cases:
  "(\<bar>determinant (Amoment n)\<bar> < 0.00003 \<longrightarrow>
      node_invert_and_stress mat n
        = n\<lparr>volume := (if density n > 0 then mass n / density n else 0),
            Amoment := ChMatrix33_zero, e_strain := ChVoightTensor_zero\<rparr>)
   \<and> (\<not> \<bar>determinant (Amoment n)\<bar> < 0.00003 \<longrightarrow>
      Amoment (node_invert_and_stress mat n) = Minverse (Amoment n)
      \<and> Mmul (Amoment (node_invert_and_stress mat n)) (Amoment n) = ChMatrix33 1 0 0 0 1 0 0 0 1
      \<and> e_strain (node_invert_and_stress mat n) = e_strain n
      \<and> e_stress (node_invert_and_stress mat n)
          = ComputeElasticStress mat
              (Tadd (Tsub (e_strain n)
                       (ComputeReturnMapping mat (t_strain (node_invert_and_stress mat n))
                          (e_strain n) (p_strain n)))
                    (t_strain (node_invert_and_stress mat n))))"
proof (intro conjI impI)
  assume deg: "\<bar>determinant (Amoment n)\<bar> < 0.00003"
  then show "node_invert_and_stress mat n
        = n\<lparr>volume := (if density n > 0 then mass n / density n else 0),
            Amoment := ChMatrix33_zero, e_strain := ChVoightTensor_zero\<rparr>"
    by (simp add: node_invert_and_stress_def Let_def)
next
  assume reg: "\<not> \<bar>determinant (Amoment n)\<bar> < 0.00003"
  then have nz: "determinant (Amoment n) \<noteq> 0"
    by auto
  from reg show inv: "Amoment (node_invert_and_stress mat n) = Minverse (Amoment n)"
    by (simp add: node_invert_and_stress_def Let_def)
  show "Mmul (Amoment (node_invert_and_stress mat n)) (Amoment n) = ChMatrix33 1 0 0 0 1 0 0 0 1"
    unfolding inv using nz by (rule Minverse_left)
  from reg show "e_strain (node_invert_and_stress mat n) = e_strain n"
    by (simp add: node_invert_and_stress_def Let_def)
  from reg show "e_stress (node_invert_and_stress mat n)
          = ComputeElasticStress mat
              (Tadd (Tsub (e_strain n)
                       (ComputeReturnMapping mat (t_strain (node_invert_and_stress mat n))
                          (e_strain n) (p_strain n)))
                    (t_strain (node_invert_and_stress mat n)))"
    by (simp add: node_invert_and_stress_def Let_def)
qed

text \<open>
  Neither the reset of phase 1 nor the branch for a near-singular shape tensor writes
  \<open>FA\<close>, the matrix \<open>2 v J \<sigma> A\<^sup>-\<^sup>1\<close> that the regular branch precomputes for the transfer of
  forces along the bonds in phase 4: after the two phases a deactivated node still holds
  the \<open>FA\<close> it had before the evaluation, whatever the first pass over the bonds did to the
  other members.
\<close>

lemma node_reset_keeps_FA: "FA (node_reset n) = FA n"
  by (simp add: node_reset_def)

lemma deactivated_node_keeps_FA:
  assumes "\<bar>determinant (Amoment n)\<bar> < 0.00003"
  shows "FA (node_invert_and_stress mat n) = FA n"
  using assms by (simp add: node_invert_and_stress_def Let_def)



subsection \<open>Mass of the nodes that FillBox creates\<close>

lemma fold_invariant:
  assumes "\<And>a s. P s \<Longrightarrow> P (f a s)" and "P s"
  shows "P (fold f xs s)"
  using assms(2) by (induction xs arbitrary: s) (simp_all add: assms(1))

lemma FillBox_body_appends:
  "\<exists>new k'. FillBox_body bsize spacing boxcoords cc horizon mr rnd sx sy sz ix iy iz (ns, tot, k)
              = (ns @ new, tot + int (length new), k')"
proof (cases "cc \<and> \<not> (ix = sx - 1 \<or> iy = sy - 1 \<or> iz = sz - 1)")
  case True
  then show ?thesis
    by (simp add: FillBox_body_def Let_def)
next
  case False
  then show ?thesis
    by (auto simp add: FillBox_body_def Let_def)
qed

lemma FillBox_loops_appends:
  "\<exists>new k'. FillBox_loops bsize spacing boxcoords cc horizon mr rnd sx sy sz (ns0, 0, k0)
              = (ns0 @ new, int (length new), k')"
proof -
  let ?P = "\<lambda>st. \<exists>new k'. st = (ns0 @ new, int (length new), k')"
  have step: "?P (FillBox_body bsize spacing boxcoords cc horizon mr rnd sx sy sz ix iy iz st)"
    if "?P st" for ix iy iz st
  proof -
    from that obtain new k' where st: "st = (ns0 @ new, int (length new), k')"
      by blast
    obtain new' k'' where
      "FillBox_body bsize spacing boxcoords cc horizon mr rnd sx sy sz ix iy iz
         (ns0 @ new, int (length new), k')
       = ((ns0 @ new) @ new', int (length new) + int (length new'), k'')"
      using FillBox_body_appends by blast
    then have "FillBox_body bsize spacing boxcoords cc horizon mr rnd sx sy sz ix iy iz st
       = (ns0 @ (new @ new'), int (length (new @ new')), k'')"
      by (simp add: st)
    then show ?thesis
      by blast
  qed
  have start: "?P (ns0, 0, k0)"
    by simp
  show ?thesis
    unfolding FillBox_loops_def
    by (intro fold_invariant [where P = ?P] step start)
qed

lemma sum_list_map_const:
  "sum_list (map (\<lambda>n. c) xs) = real (length xs) * c"
  by (induction xs) (simp_all add: algebra_simps)

text \<open>
  Claim C8. Whatever the box size, the spacing, the density, the frame, the two options
  and the random draws: if \<^verbatim>\<open>FillBox\<close> creates at least one node, the nodes it creates
  (those appended to the container) all have the same mass, the total box mass divided
  by their number, and their masses sum to \<open>V \<rho>\<close> with \<open>V\<close> the product of the three box
  sizes. In a container that was empty before the call they are all of its nodes.
\<close>

theorem FillBox_mass_conservation:
  assumes "created = drop (length (nodes matter))
                       (nodes (fst (FillBox bsize spacing rho boxcoords cc hs rn rnd k0 matter)))"
    and "created \<noteq> []"
  shows "(\<forall>n \<in> set created. mass n = vx bsize * vy bsize * vz bsize * rho / real (length created))
       \<and> sum_list (map mass created) = vx bsize * vy bsize * vz bsize * rho
       \<and> length (nodes (fst (FillBox bsize spacing rho boxcoords cc hs rn rnd k0 matter)))
           = length (nodes matter) + length created
       \<and> (nodes matter = [] \<longrightarrow>
            nodes (fst (FillBox bsize spacing rho boxcoords cc hs rn rnd k0 matter)) = created)"
proof -
  let ?V = "vx bsize * vy bsize * vz bsize"
  obtain new k' where loops:
    "FillBox_loops bsize spacing boxcoords cc (hs * spacing) (if cc then rn * 0.5 else rn) rnd
       (double_to_int (vx bsize / spacing)) (double_to_int (vy bsize / spacing))
       (double_to_int (vz bsize / spacing)) (nodes matter, 0, k0)
     = (nodes matter @ new, int (length new), k')"
    using FillBox_loops_appends by blast
  let ?m = "?V * rho / real (length new)"
  have res: "nodes (fst (FillBox bsize spacing rho boxcoords cc hs rn rnd k0 matter))
               = map (\<lambda>mnode. mnode\<lparr>mass := ?m\<rparr>) (nodes matter @ new)"
    by (simp add: FillBox_def Let_def loops)
  have created: "created = map (\<lambda>mnode. mnode\<lparr>mass := ?m\<rparr>) new"
    by (simp add: assms(1) res)
  then have len: "length created = length new"
    by simp
  with assms(2) have pos: "0 < length new"
    by (cases new) auto
  have masses: "map mass created = map (\<lambda>n. ?m) new"
    by (simp add: created)
  have "sum_list (map mass created) = real (length new) * ?m"
    unfolding masses by (rule sum_list_map_const)
  also have "\<dots> = ?V * rho"
    using pos by simp
  finally have total: "sum_list (map mass created) = ?V * rho" .
  have each: "\<forall>n \<in> set created. mass n = ?V * rho / real (length created)"
    by (auto simp add: created)
  show ?thesis
    using each total by (simp add: res created)
qed

theorem FillBox_mass_conservation_witness:
  "map mass (drop (length (nodes empty_matter))
       (nodes (fst (FillBox (ChVector3d 2 2 2) 1 3 (\<lambda>p. p) True (3 / 2) 0 (\<lambda>k. 0) 0 empty_matter))))
     = replicate 9 (8 / 3)
   \<and> sum_list (map mass (drop (length (nodes empty_matter))
       (nodes (fst (FillBox (ChVector3d 2 2 2) 1 3 (\<lambda>p. p) True (3 / 2) 0 (\<lambda>k. 0) 0 empty_matter)))))
     = 2 * 2 * 2 * 3"
proof -
  let ?created = "drop (length (nodes empty_matter))
       (nodes (fst (FillBox (ChVector3d 2 2 2) 1 3 (\<lambda>p. p) True (3 / 2) 0 (\<lambda>k. 0) 0 empty_matter)))"
  have run: "map mass ?created = replicate 9 (8 / 3)"
    by (simp add: FillBox_def FillBox_loops_def FillBox_body_def double_to_int_def Let_def upt_rec
          empty_matter_def numeral_eq_Suc)
  then have "length (map mass ?created) = 9"
    by simp
  then have ne: "?created \<noteq> []"
    by auto
  show ?thesis
    using FillBox_mass_conservation [OF refl ne] run by simp
qed

subsection \<open>The solver front-end without constraints\<close>

lemma word32_le_zero_iff: "(w :: 32 word) \<le> 0 \<longleftrightarrow> w = 0"
  by simp

lemma word32_gt_zero_iff: "(0 :: 32 word) < w \<longleftrightarrow> w \<noteq> 0"
  by (simp add: word_neq_0_conv)

text \<open>
  Claim C9. With a constraint count of zero the three assembly routines return as soon
  as they have started their timer: the data manager they return is the one they were
  given with that timer started, so no matrix or vector of the host data is touched and
  no method of a constraint container is run. \<^verbatim>\<open>ComputeImpulses\<close> then replaces the velocity
  by \<open>v + M_inv hf\<close>. With a non-zero count it replaces the velocity by
  \<open>v + M_inv hf + M_invD \<gamma>\<close>. In both cases nothing but the velocity changes.
\<close>

theorem zero_constraints_free_flight:
  "(num_constraints dm = 0 \<longrightarrow>
      ComputeD cs dm = timer_start ''ChLcpSolverParallel_D'' dm
      \<and> ComputeE cs dm = timer_start ''ChLcpSolverParallel_E'' dm
      \<and> ComputeR cs dm = timer_start ''ChLcpSolverParallel_R'' dm
      \<and> ComputeImpulses dm
          = dm\<lparr>host_v := vec_add (host_v dm) (mat_vec (host_M_inv dm) (host_hf dm))\<rparr>)
   \<and> (num_constraints dm \<noteq> 0 \<longrightarrow>
      ComputeImpulses dm
          = dm\<lparr>host_v := vec_add (vec_add (host_v dm) (mat_vec (host_M_inv dm) (host_hf dm)))
                              (mat_vec (host_M_invD dm) (host_gamma dm))\<rparr>)"
  by (simp add: ComputeD_def ComputeE_def ComputeR_def ComputeImpulses_def Let_def
        timer_start_def word32_gt_zero_iff)

theorem zero_constraints_free_flight_witness:
  "host_v (ComputeImpulses (sample_data_manager 0)) = [2, 3]
   \<and> host_D_T (ComputeD idle_containers (sample_data_manager 0)) = host_D_T (sample_data_manager 0)
   \<and> host_E (ComputeE idle_containers (sample_data_manager 0)) = host_E (sample_data_manager 0)
   \<and> host_R_full (ComputeR idle_containers (sample_data_manager 0)) = host_R_full (sample_data_manager 0)
   \<and> host_v (ComputeImpulses (sample_data_manager 1)) = [5, 6]"
proof -
  have n0: "num_constraints (sample_data_manager 0) = 0"
    and n1: "num_constraints (sample_data_manager 1) \<noteq> 0"
    by (simp_all add: sample_data_manager_def)
  have up: "[0..<2] = [0, 1]" "[0..<1] = [0]"
    by (simp_all add: upt_rec)
  have vals: "mat_vec (host_M_inv (sample_data_manager n)) (host_hf (sample_data_manager n)) = [1, 1]"
    "mat_vec (host_M_invD (sample_data_manager n)) (host_gamma (sample_data_manager n)) = [3, 3]"
    "host_v (sample_data_manager n) = [1, 2]" for n
    by (simp_all add: sample_data_manager_def mat_vec_def up)
  show ?thesis
    using zero_constraints_free_flight [of "sample_data_manager 0" idle_containers]
      zero_constraints_free_flight [of "sample_data_manager 1" idle_containers] n0 n1
    by (simp add: vals vec_add_def timer_start_def)
qed

end
